theory Spec2Isabelle
  imports Complex_Main
begin

section \<open>Exact inference over a pedigree: the embedding of heredity.py\<close>

text \<open>
  Python floats are modelled as the real numbers they denote: every constant of the
  probability tables is a decimal fraction, and the comparisons of the source
  (\<open>> 0\<close>, \<open>> 0.5\<close>) are made on values that are exact in binary floating point
  (0, 0.5, 1) or far from the threshold (0.01, 0.99), so each branch taken is the
  one the reals take. This embedding does not model the rounding of the products and
  sums; the accumulation is embedded a second time in binary64 arithmetic, further down,
  for the one claim that rounding decides.
\<close>

subsection \<open>Errors, dictionaries\<close>

datatype py_error = KeyError | ZeroDivisionError

text \<open>
  A Python \<open>dict\<close> is an association list in insertion order. \<open>for k in d\<close> runs
  over \<open>map fst d\<close>, \<open>d[k]\<close> raises \<open>KeyError\<close> on a missing key, and
  \<open>d[k] = v\<close> replaces the value in place or appends a new key.
\<close>

definition getitem :: "('k \<times> 'v) list \<Rightarrow> 'k \<Rightarrow> py_error + 'v" where
  "getitem d k = (case map_of d k of None \<Rightarrow> Inl KeyError | Some v \<Rightarrow> Inr v)"

fun setitem :: "('k \<times> 'v) list \<Rightarrow> 'k \<Rightarrow> 'v \<Rightarrow> ('k \<times> 'v) list" where
  "setitem [] k v = [(k, v)]"
| "setitem ((k', v') # d) k v = (if k' = k then (k, v) # d else (k', v') # setitem d k v)"

definition py_div :: "real \<Rightarrow> real \<Rightarrow> py_error + real" where
  "py_div a b = (if b = 0 then Inl ZeroDivisionError else Inr (a / b))"

subsection \<open>The probability tables \<open>PROBS\<close>\<close>

definition PROBS_gene :: "(nat \<times> real) list" where
  "PROBS_gene = [(2, 0.01), (1, 0.03), (0, 0.96)]"

text \<open>The inner dictionaries are keyed by \<open>True\<close> and \<open>False\<close>: total functions on \<open>bool\<close>.\<close>

definition PROBS_trait :: "(nat \<times> (bool \<Rightarrow> real)) list" where
  "PROBS_trait =
     [(2, \<lambda>t. if t then 0.65 else 0.35),
      (1, \<lambda>t. if t then 0.56 else 0.44),
      (0, \<lambda>t. if t then 0.01 else 0.99)]"

definition PROBS_mutation :: real where
  "PROBS_mutation = 0.01"

subsection \<open>The pedigree\<close>

record person =
  name :: string
  mother :: "string option"
  father :: "string option"
  trait :: "bool option"

type_synonym people = "(string \<times> person) list"

text \<open>
  \<open>x in s\<close> for a value that is \<open>None\<close> or a name, and a set of names:
  \<open>None\<close> is in no set of names.
\<close>

definition opt_in :: "string option \<Rightarrow> string set \<Rightarrow> bool" where
  "opt_in x s = (case x of None \<Rightarrow> False | Some n \<Rightarrow> n \<in> s)"

subsection \<open>\<open>joint_probability\<close>\<close>

text \<open>\<open>2 if person in two_genes else 1 if person in one_gene else 0\<close>\<close>

definition gene_copies_of :: "string option \<Rightarrow> string set \<Rightarrow> string set \<Rightarrow> nat" where
  "gene_copies_of person one_gene two_genes =
     (if opt_in person two_genes then 2 else if opt_in person one_gene then 1 else 0)"

text \<open>
  Lines 167 to 212: the probability of the person's gene count from the parents' gene
  counts, with the source's local variables and their reassignments kept as they are.
\<close>

definition inherit_prob :: "nat \<Rightarrow> nat \<Rightarrow> nat \<Rightarrow> real" where
  "inherit_prob gene_copies mother_has_gene father_has_gene =
     (if gene_copies = 0 then
        (let prob_no_gene_from_mother =
               (if mother_has_gene > 0 then 1 - real mother_has_gene / 2 else 0.99);
             prob_no_gene_from_father =
               (if father_has_gene > 0 then 1 - real father_has_gene / 2 else 0.99);
             prob_no_gene_from_mother =
               (if prob_no_gene_from_mother > 0.5 then 1 - PROBS_mutation else PROBS_mutation);
             prob_no_gene_from_father =
               (if prob_no_gene_from_father > 0.5 then 1 - PROBS_mutation else PROBS_mutation)
         in prob_no_gene_from_mother * prob_no_gene_from_father)
      else if gene_copies = 1 then
        (let prob_gene_from_mother =
               (if mother_has_gene > 0 then real mother_has_gene / 2 else 0.01);
             prob_no_gene_from_father =
               (if father_has_gene > 0 then 1 - real father_has_gene / 2 else 0.99);
             prob_gene_from_mother =
               (if prob_gene_from_mother > 0.5 then 1 - PROBS_mutation else PROBS_mutation);
             prob_no_gene_from_father =
               (if prob_no_gene_from_father > 0.5 then 1 - PROBS_mutation else PROBS_mutation);
             prob_gene_from_father =
               (if father_has_gene > 0 then real father_has_gene / 2 else 0.01);
             prob_no_gene_from_mother =
               (if mother_has_gene > 0 then 1 - real mother_has_gene / 2 else 0.99);
             prob_gene_from_father =
               (if prob_gene_from_father > 0.5 then 1 - PROBS_mutation else PROBS_mutation);
             prob_no_gene_from_mother =
               (if prob_no_gene_from_mother > 0.5 then 1 - PROBS_mutation else PROBS_mutation)
         in prob_gene_from_mother * prob_no_gene_from_father
            + prob_gene_from_father * prob_no_gene_from_mother)
      else
        (let prob_gene_from_mother =
               (if mother_has_gene > 0 then real mother_has_gene / 2 else 0.01);
             prob_gene_from_father =
               (if father_has_gene > 0 then real father_has_gene / 2 else 0.01);
             prob_gene_from_mother =
               (if prob_gene_from_mother > 0.5 then 1 - PROBS_mutation else PROBS_mutation);
             prob_gene_from_father =
               (if prob_gene_from_father > 0.5 then 1 - PROBS_mutation else PROBS_mutation)
         in prob_gene_from_mother * prob_gene_from_father))"

text \<open>
  Lines 153 to 212: the value of \<open>person_prob\<close> before it is multiplied by the trait
  probability, for a person whose entry in \<open>people\<close> is \<open>info\<close>.
\<close>

definition gene_factor ::
  "person \<Rightarrow> nat \<Rightarrow> string set \<Rightarrow> string set \<Rightarrow> py_error + real" where
  "gene_factor info gene_copies one_gene two_genes =
     (if mother info = None \<and> father info = None then getitem PROBS_gene gene_copies
      else
        (let mother_has_gene = gene_copies_of (mother info) one_gene two_genes;
             father_has_gene = gene_copies_of (father info) one_gene two_genes
         in Inr (inherit_prob gene_copies mother_has_gene father_has_gene)))"

text \<open>The body of the loop over \<open>people\<close>: the value that multiplies \<open>joint_prob\<close>.\<close>

definition person_prob ::
  "people \<Rightarrow> string set \<Rightarrow> string set \<Rightarrow> string set \<Rightarrow> string \<Rightarrow> py_error + real" where
  "person_prob people one_gene two_genes have_trait person =
     (let gene_copies = gene_copies_of (Some person) one_gene two_genes;
          has_trait = (person \<in> have_trait)
      in case getitem people person of Inl e \<Rightarrow> Inl e
         | Inr info \<Rightarrow>
             (case gene_factor info gene_copies one_gene two_genes of Inl e \<Rightarrow> Inl e
              | Inr g \<Rightarrow>
                  (case getitem PROBS_trait gene_copies of Inl e \<Rightarrow> Inl e
                   | Inr row \<Rightarrow> Inr (g * row has_trait))))"

fun joint_loop ::
  "people \<Rightarrow> string set \<Rightarrow> string set \<Rightarrow> string set \<Rightarrow> string list \<Rightarrow> real
     \<Rightarrow> py_error + real" where
  "joint_loop people one_gene two_genes have_trait [] joint_prob = Inr joint_prob"
| "joint_loop people one_gene two_genes have_trait (person # rest) joint_prob =
     (case person_prob people one_gene two_genes have_trait person of Inl e \<Rightarrow> Inl e
      | Inr p \<Rightarrow> joint_loop people one_gene two_genes have_trait rest (joint_prob * p))"

definition joint_probability ::
  "people \<Rightarrow> string set \<Rightarrow> string set \<Rightarrow> string set \<Rightarrow> py_error + real" where
  "joint_probability people one_gene two_genes have_trait =
     joint_loop people one_gene two_genes have_trait (map fst people) 1"

subsection \<open>The accumulators\<close>

text \<open>
  \<open>probabilities[person]\<close> is \<open>{"gene": {2: _, 1: _, 0: _}, "trait": {True: _, False: _}}\<close>:
  dictionaries with fixed literal keys, modelled as records, the fields in the order of
  the keys.
\<close>

record gene_cells =
  gene2 :: real
  gene1 :: real
  gene0 :: real

record trait_cells =
  trait_True :: real
  trait_False :: real

record distributions =
  p_gene :: gene_cells
  p_trait :: trait_cells

type_synonym probabilities = "(string \<times> distributions) list"

definition init_probabilities :: "people \<Rightarrow> probabilities" where
  "init_probabilities people =
     map (\<lambda>person. (person,
            \<lparr>p_gene = \<lparr>gene2 = 0, gene1 = 0, gene0 = 0\<rparr>,
             p_trait = \<lparr>trait_True = 0, trait_False = 0\<rparr>\<rparr>))
         (map fst people)"

subsection \<open>\<open>update\<close>\<close>

text \<open>The two statements of the loop body of \<open>update\<close>, on the entry of \<open>person\<close>.\<close>

definition update_gene ::
  "gene_cells \<Rightarrow> string \<Rightarrow> string set \<Rightarrow> string set \<Rightarrow> real \<Rightarrow> gene_cells" where
  "update_gene g person one_gene two_genes p =
     (if person \<in> two_genes then g\<lparr>gene2 := gene2 g + p\<rparr>
      else if person \<in> one_gene then g\<lparr>gene1 := gene1 g + p\<rparr>
      else g\<lparr>gene0 := gene0 g + p\<rparr>)"

definition update_trait :: "trait_cells \<Rightarrow> string \<Rightarrow> string set \<Rightarrow> real \<Rightarrow> trait_cells" where
  "update_trait t person have_trait p =
     (if person \<in> have_trait then t\<lparr>trait_True := trait_True t + p\<rparr>
      else t\<lparr>trait_False := trait_False t + p\<rparr>)"

definition update_person ::
  "distributions \<Rightarrow> string \<Rightarrow> string set \<Rightarrow> string set \<Rightarrow> string set \<Rightarrow> real
     \<Rightarrow> distributions" where
  "update_person d person one_gene two_genes have_trait p =
     \<lparr>p_gene = update_gene (p_gene d) person one_gene two_genes p,
      p_trait = update_trait (p_trait d) person have_trait p\<rparr>"

fun update_loop ::
  "probabilities \<Rightarrow> string set \<Rightarrow> string set \<Rightarrow> string set \<Rightarrow> real \<Rightarrow> string list
     \<Rightarrow> py_error + probabilities" where
  "update_loop probabilities one_gene two_genes have_trait p [] = Inr probabilities"
| "update_loop probabilities one_gene two_genes have_trait p (person # rest) =
     (case getitem probabilities person of Inl e \<Rightarrow> Inl e
      | Inr d \<Rightarrow>
          update_loop
            (setitem probabilities person (update_person d person one_gene two_genes have_trait p))
            one_gene two_genes have_trait p rest)"

definition update ::
  "probabilities \<Rightarrow> string set \<Rightarrow> string set \<Rightarrow> string set \<Rightarrow> real
     \<Rightarrow> py_error + probabilities" where
  "update probabilities one_gene two_genes have_trait p =
     update_loop probabilities one_gene two_genes have_trait p (map fst probabilities)"

subsection \<open>\<open>normalize\<close>\<close>

definition gene_sum :: "gene_cells \<Rightarrow> real" where
  "gene_sum g = gene2 g + gene1 g + gene0 g"

definition trait_sum :: "trait_cells \<Rightarrow> real" where
  "trait_sum t = trait_True t + trait_False t"

text \<open>Each \<open>/=\<close> of the source is a division that raises on a zero divisor.\<close>

definition normalize_gene :: "gene_cells \<Rightarrow> py_error + gene_cells" where
  "normalize_gene g =
     (if gene_sum g > 0 then
        (case py_div (gene2 g) (gene_sum g) of Inl e \<Rightarrow> Inl e
         | Inr a \<Rightarrow>
             (case py_div (gene1 g) (gene_sum g) of Inl e \<Rightarrow> Inl e
              | Inr b \<Rightarrow>
                  (case py_div (gene0 g) (gene_sum g) of Inl e \<Rightarrow> Inl e
                   | Inr c \<Rightarrow> Inr \<lparr>gene2 = a, gene1 = b, gene0 = c\<rparr>)))
      else Inr g)"

definition normalize_trait :: "trait_cells \<Rightarrow> py_error + trait_cells" where
  "normalize_trait t =
     (if trait_sum t > 0 then
        (case py_div (trait_True t) (trait_sum t) of Inl e \<Rightarrow> Inl e
         | Inr a \<Rightarrow>
             (case py_div (trait_False t) (trait_sum t) of Inl e \<Rightarrow> Inl e
              | Inr b \<Rightarrow> Inr \<lparr>trait_True = a, trait_False = b\<rparr>))
      else Inr t)"

definition normalize_person :: "distributions \<Rightarrow> py_error + distributions" where
  "normalize_person d =
     (case normalize_gene (p_gene d) of Inl e \<Rightarrow> Inl e
      | Inr g \<Rightarrow>
          (case normalize_trait (p_trait d) of Inl e \<Rightarrow> Inl e
           | Inr t \<Rightarrow> Inr \<lparr>p_gene = g, p_trait = t\<rparr>))"

fun normalize_loop :: "probabilities \<Rightarrow> string list \<Rightarrow> py_error + probabilities" where
  "normalize_loop probabilities [] = Inr probabilities"
| "normalize_loop probabilities (person # rest) =
     (case getitem probabilities person of Inl e \<Rightarrow> Inl e
      | Inr d \<Rightarrow>
          (case normalize_person d of Inl e \<Rightarrow> Inl e
           | Inr d' \<Rightarrow> normalize_loop (setitem probabilities person d') rest))"

definition normalize_probabilities :: "probabilities \<Rightarrow> py_error + probabilities" where
  "normalize_probabilities probabilities =
     normalize_loop probabilities (map fst probabilities)"

subsection \<open>\<open>powerset\<close> and the enumeration of \<open>main\<close>\<close>

text \<open>
  \<open>itertools.combinations(s, r)\<close>: the sublists of \<open>s\<close> of length \<open>r\<close>, in the
  lexicographic order of their positions.
\<close>

fun combinations :: "'a list \<Rightarrow> nat \<Rightarrow> 'a list list" where
  "combinations xs 0 = [[]]"
| "combinations [] (Suc r) = []"
| "combinations (x # xs) (Suc r) = map ((#) x) (combinations xs r) @ combinations xs (Suc r)"

text \<open>
  The argument is the list \<open>list(s)\<close> of the elements of the Python set \<open>s\<close>, in the
  order the set iterates.
\<close>

definition powerset :: "'a list \<Rightarrow> 'a set list" where
  "powerset s = map set (concat (map (combinations s) [0..<length s + 1]))"

text \<open>
  The two nested loops over \<open>one_gene\<close> and \<open>two_genes\<close>: the pairs in the order
  the loop body meets them. \<open>names - one_gene\<close> is listed in the order of \<open>names\<close>.
\<close>

definition gene_partitions :: "string list \<Rightarrow> (string set \<times> string set) list" where
  "gene_partitions names =
     concat (map (\<lambda>one_gene.
                    map (\<lambda>two_genes. (one_gene, two_genes))
                        (powerset (filter (\<lambda>n. n \<notin> one_gene) names)))
                 (powerset names))"

fun fails_evidence :: "people \<Rightarrow> string set \<Rightarrow> string list \<Rightarrow> py_error + bool" where
  "fails_evidence people have_trait [] = Inr False"
| "fails_evidence people have_trait (person # rest) =
     (case getitem people person of Inl e \<Rightarrow> Inl e
      | Inr info \<Rightarrow>
          if trait info \<noteq> None \<and> trait info \<noteq> Some (person \<in> have_trait) then Inr True
          else fails_evidence people have_trait rest)"

fun gene_loop ::
  "people \<Rightarrow> probabilities \<Rightarrow> string set \<Rightarrow> (string set \<times> string set) list
     \<Rightarrow> py_error + probabilities" where
  "gene_loop people probabilities have_trait [] = Inr probabilities"
| "gene_loop people probabilities have_trait ((one_gene, two_genes) # rest) =
     (case joint_probability people one_gene two_genes have_trait of Inl e \<Rightarrow> Inl e
      | Inr p \<Rightarrow>
          (case update probabilities one_gene two_genes have_trait p of Inl e \<Rightarrow> Inl e
           | Inr probabilities' \<Rightarrow> gene_loop people probabilities' have_trait rest))"

fun trait_loop ::
  "people \<Rightarrow> string list \<Rightarrow> probabilities \<Rightarrow> string set list \<Rightarrow> py_error + probabilities" where
  "trait_loop people names probabilities [] = Inr probabilities"
| "trait_loop people names probabilities (have_trait # rest) =
     (case fails_evidence people have_trait names of Inl e \<Rightarrow> Inl e
      | Inr fails \<Rightarrow>
          if fails then trait_loop people names probabilities rest
          else
            (case gene_loop people probabilities have_trait (gene_partitions names) of
               Inl e \<Rightarrow> Inl e
             | Inr probabilities' \<Rightarrow> trait_loop people names probabilities' rest))"

text \<open>
  \<open>main\<close> from the loaded \<open>people\<close> to the accumulators before \<open>normalize\<close>
  (\<open>accumulate\<close>) and to the normalized distributions that are printed (\<open>main\<close>).
\<close>

definition accumulate :: "people \<Rightarrow> py_error + probabilities" where
  "accumulate people =
     (let probabilities = init_probabilities people;
          names = map fst people
      in trait_loop people names probabilities (powerset names))"

definition main :: "people \<Rightarrow> py_error + probabilities" where
  "main people =
     (case accumulate people of Inl e \<Rightarrow> Inl e
      | Inr probabilities \<Rightarrow> normalize_probabilities probabilities)"

subsection \<open>The transmission model as the specification words it\<close>

text \<open>
  The specification's transmission function: a parent with gene count \<open>g\<close> passes a copy
  with base probability \<open>g / 2\<close>, adjusted by the mutation rate \<open>m\<close> to
  \<open>base * (1 - m) + (1 - base) * m\<close>.
\<close>

definition spec_transmit :: "nat \<Rightarrow> real" where
  "spec_transmit g =
     (real g / 2) * (1 - PROBS_mutation) + (1 - real g / 2) * PROBS_mutation"

definition spec_gene_factor :: "nat \<Rightarrow> nat \<Rightarrow> nat \<Rightarrow> real" where
  "spec_gene_factor gene_copies mother_has_gene father_has_gene =
     (if gene_copies = 0 then
        (1 - spec_transmit mother_has_gene) * (1 - spec_transmit father_has_gene)
      else if gene_copies = 1 then
        spec_transmit mother_has_gene * (1 - spec_transmit father_has_gene)
        + (1 - spec_transmit mother_has_gene) * spec_transmit father_has_gene
      else spec_transmit mother_has_gene * spec_transmit father_has_gene)"

subsection \<open>Predicates of the claims\<close>

text \<open>
  A candidate trait subset is consistent with the evidence when every individual observed
  with the trait is in it and every individual observed without the trait is not.
\<close>

definition evidence_consistent :: "people \<Rightarrow> string set \<Rightarrow> bool" where
  "evidence_consistent people have_trait =
     (\<forall>(person, info) \<in> set people.
        (trait info = Some True \<longrightarrow> person \<in> have_trait)
        \<and> (trait info = Some False \<longrightarrow> person \<notin> have_trait))"

text \<open>
  For every person the three gene cells and the two trait cells have the same sum.
\<close>

definition balanced :: "probabilities \<Rightarrow> bool" where
  "balanced probabilities =
     (\<forall>(person, d) \<in> set probabilities. gene_sum (p_gene d) = trait_sum (p_trait d))"

text \<open>
  The joint mass of a list of gene partitions under one trait subset: the sum of the
  values \<open>joint_probability\<close> returns for them. The mass accumulated over a list of
  trait subsets: the joint mass of all gene partitions, summed over the subsets that pass
  the evidence filter.
\<close>

definition joint_mass :: "people \<Rightarrow> string set \<Rightarrow> (string set \<times> string set) list \<Rightarrow> real" where
  "joint_mass people have_trait parts =
     sum_list (map (\<lambda>(one_gene, two_genes).
                      case joint_probability people one_gene two_genes have_trait of
                        Inl e \<Rightarrow> 0 | Inr p \<Rightarrow> p)
                   parts)"

definition accumulated_mass :: "people \<Rightarrow> string set list \<Rightarrow> real" where
  "accumulated_mass people subsets =
     sum_list (map (\<lambda>have_trait. joint_mass people have_trait (gene_partitions (map fst people)))
                   (filter (evidence_consistent people) subsets))"

text \<open>
  Every person's gene cells and every person's trait cells sum to \<open>mass\<close>.
\<close>

definition has_mass :: "real \<Rightarrow> probabilities \<Rightarrow> bool" where
  "has_mass mass probabilities =
     (\<forall>(person, d) \<in> set probabilities.
        gene_sum (p_gene d) = mass \<and> trait_sum (p_trait d) = mass)"

subsection \<open>The accumulation in binary64 arithmetic\<close>

text \<open>
  A Python \<open>float\<close> is an IEEE 754 binary64 number. A finite one is written here as a
  pair \<open>(m, e)\<close> of integers and denotes \<open>m * 2 ^ e\<close>. The result of \<open>+\<close>, \<open>-\<close>
  and \<open>*\<close> is the exact result rounded to 53 significant bits, to the nearest value,
  ties to the even significand; a decimal literal \<open>p / q\<close> is the binary64 value nearest
  to it. The exponent is not bounded: overflow and gradual underflow are outside this
  model, and none of the values computed below comes near them. Halving (\<open>g / 2\<close> for
  a gene count \<open>g\<close>) is exact.
\<close>

type_synonym binary64 = "int \<times> int"

text \<open>The number of binary digits of a natural number.\<close>

fun bit_length :: "nat \<Rightarrow> nat" where
  "bit_length n = (if n = 0 then 0 else Suc (bit_length (n div 2)))"

text \<open>
  \<open>a / b\<close> rounded to the nearest integer, a tie going to the even one, for
  \<open>0 \<le> a\<close> and \<open>0 < b\<close>.
\<close>

definition round_half_even :: "int \<Rightarrow> int \<Rightarrow> int" where
  "round_half_even a b =
     (let q = a div b; r = a mod b
      in if 2 * r > b \<or> (2 * r = b \<and> odd q) then q + 1 else q)"

text \<open>
  The exact value \<open>m * 2 ^ e\<close> rounded to a significand of at most 53 bits, the sign
  kept apart.
\<close>

definition round64 :: "int \<times> int \<Rightarrow> binary64" where
  "round64 x =
     (case x of (m, e) \<Rightarrow>
        let n = bit_length (nat \<bar>m\<bar>)
        in if n \<le> 53 then (m, e)
           else (sgn m * round_half_even \<bar>m\<bar> (2 ^ (n - 53)), e + int (n - 53)))"

definition fadd :: "binary64 \<Rightarrow> binary64 \<Rightarrow> binary64" where
  "fadd a b =
     (case a of (ma, ea) \<Rightarrow> case b of (mb, eb) \<Rightarrow>
        let e = min ea eb
        in round64 (ma * 2 ^ nat (ea - e) + mb * 2 ^ nat (eb - e), e))"

definition fmul :: "binary64 \<Rightarrow> binary64 \<Rightarrow> binary64" where
  "fmul a b = (case a of (ma, ea) \<Rightarrow> case b of (mb, eb) \<Rightarrow> round64 (ma * mb, ea + eb))"

definition fneg :: "binary64 \<Rightarrow> binary64" where
  "fneg a = (case a of (m, e) \<Rightarrow> (- m, e))"

definition fsub :: "binary64 \<Rightarrow> binary64 \<Rightarrow> binary64" where
  "fsub a b = fadd a (fneg b)"

definition fhalf :: "binary64 \<Rightarrow> binary64" where
  "fhalf a = (case a of (m, e) \<Rightarrow> (m, e - 1))"

text \<open>\<open>a < b\<close>, on the two significands brought to the smaller exponent.\<close>

definition fless :: "binary64 \<Rightarrow> binary64 \<Rightarrow> bool" where
  "fless a b =
     (case a of (ma, ea) \<Rightarrow> case b of (mb, eb) \<Rightarrow>
        let e = min ea eb
        in ma * 2 ^ nat (ea - e) < mb * 2 ^ nat (eb - e))"

text \<open>
  A small Python \<open>int\<close> (a gene count, or the 1 of \<open>1 - x\<close>) as a float, and the
  real number that a float denotes.
\<close>

definition of_count :: "nat \<Rightarrow> binary64" where
  "of_count n = (int n, 0)"

definition valof :: "binary64 \<Rightarrow> real" where
  "valof a =
     (case a of (m, e) \<Rightarrow>
        if 0 \<le> e then of_int m * 2 ^ nat e else of_int m / 2 ^ nat (- e))"

text \<open>
  The decimal literal \<open>p / q\<close> (\<open>0 < p\<close>, \<open>0 < q\<close>): the scaling \<open>s\<close> puts
  \<open>p * 2 ^ s / q\<close> between \<open>2 ^ 52\<close> and \<open>2 ^ 53\<close>, where it is rounded to an
  integer.
\<close>

definition lit :: "nat \<Rightarrow> nat \<Rightarrow> binary64" where
  "lit p q =
     (let s0 = 52 + int (bit_length q) - int (bit_length p);
          n0 = int p * 2 ^ nat s0; d0 = int q * 2 ^ nat (- s0);
          s = (if n0 < d0 * 2 ^ 52 then s0 + 1 else s0)
      in (round_half_even (int p * 2 ^ nat s) (int q * 2 ^ nat (- s)), - s))"

text \<open>
  The tables, \<open>joint_probability\<close>, \<open>update\<close> and the loops of \<open>main\<close> once more,
  line by line as above, with every literal and every arithmetic operation in binary64.
  The accumulators start at the integer 0, and \<open>0 + p\<close> is \<open>p\<close>.
\<close>

definition PROBS_gene64 :: "(nat \<times> binary64) list" where
  "PROBS_gene64 = [(2, lit 1 100), (1, lit 3 100), (0, lit 96 100)]"

definition PROBS_trait64 :: "(nat \<times> (bool \<Rightarrow> binary64)) list" where
  "PROBS_trait64 =
     [(2, \<lambda>t. if t then lit 65 100 else lit 35 100),
      (1, \<lambda>t. if t then lit 56 100 else lit 44 100),
      (0, \<lambda>t. if t then lit 1 100 else lit 99 100)]"

definition PROBS_mutation64 :: binary64 where
  "PROBS_mutation64 = lit 1 100"

definition inherit_prob64 :: "nat \<Rightarrow> nat \<Rightarrow> nat \<Rightarrow> binary64" where
  "inherit_prob64 gene_copies mother_has_gene father_has_gene =
     (if gene_copies = 0 then
        (let prob_no_gene_from_mother =
               (if mother_has_gene > 0 then fsub (of_count 1) (fhalf (of_count mother_has_gene))
                else lit 99 100);
             prob_no_gene_from_father =
               (if father_has_gene > 0 then fsub (of_count 1) (fhalf (of_count father_has_gene))
                else lit 99 100);
             prob_no_gene_from_mother =
               (if fless (lit 5 10) prob_no_gene_from_mother
                then fsub (of_count 1) PROBS_mutation64 else PROBS_mutation64);
             prob_no_gene_from_father =
               (if fless (lit 5 10) prob_no_gene_from_father
                then fsub (of_count 1) PROBS_mutation64 else PROBS_mutation64)
         in fmul prob_no_gene_from_mother prob_no_gene_from_father)
      else if gene_copies = 1 then
        (let prob_gene_from_mother =
               (if mother_has_gene > 0 then fhalf (of_count mother_has_gene) else lit 1 100);
             prob_no_gene_from_father =
               (if father_has_gene > 0 then fsub (of_count 1) (fhalf (of_count father_has_gene))
                else lit 99 100);
             prob_gene_from_mother =
               (if fless (lit 5 10) prob_gene_from_mother
                then fsub (of_count 1) PROBS_mutation64 else PROBS_mutation64);
             prob_no_gene_from_father =
               (if fless (lit 5 10) prob_no_gene_from_father
                then fsub (of_count 1) PROBS_mutation64 else PROBS_mutation64);
             prob_gene_from_father =
               (if father_has_gene > 0 then fhalf (of_count father_has_gene) else lit 1 100);
             prob_no_gene_from_mother =
               (if mother_has_gene > 0 then fsub (of_count 1) (fhalf (of_count mother_has_gene))
                else lit 99 100);
             prob_gene_from_father =
               (if fless (lit 5 10) prob_gene_from_father
                then fsub (of_count 1) PROBS_mutation64 else PROBS_mutation64);
             prob_no_gene_from_mother =
               (if fless (lit 5 10) prob_no_gene_from_mother
                then fsub (of_count 1) PROBS_mutation64 else PROBS_mutation64)
         in fadd (fmul prob_gene_from_mother prob_no_gene_from_father)
              (fmul prob_gene_from_father prob_no_gene_from_mother))
      else
        (let prob_gene_from_mother =
               (if mother_has_gene > 0 then fhalf (of_count mother_has_gene) else lit 1 100);
             prob_gene_from_father =
               (if father_has_gene > 0 then fhalf (of_count father_has_gene) else lit 1 100);
             prob_gene_from_mother =
               (if fless (lit 5 10) prob_gene_from_mother
                then fsub (of_count 1) PROBS_mutation64 else PROBS_mutation64);
             prob_gene_from_father =
               (if fless (lit 5 10) prob_gene_from_father
                then fsub (of_count 1) PROBS_mutation64 else PROBS_mutation64)
         in fmul prob_gene_from_mother prob_gene_from_father))"

definition gene_factor64 ::
  "person \<Rightarrow> nat \<Rightarrow> string set \<Rightarrow> string set \<Rightarrow> py_error + binary64" where
  "gene_factor64 info gene_copies one_gene two_genes =
     (if mother info = None \<and> father info = None then getitem PROBS_gene64 gene_copies
      else
        (let mother_has_gene = gene_copies_of (mother info) one_gene two_genes;
             father_has_gene = gene_copies_of (father info) one_gene two_genes
         in Inr (inherit_prob64 gene_copies mother_has_gene father_has_gene)))"

definition person_prob64 ::
  "people \<Rightarrow> string set \<Rightarrow> string set \<Rightarrow> string set \<Rightarrow> string \<Rightarrow> py_error + binary64" where
  "person_prob64 people one_gene two_genes have_trait person =
     (let gene_copies = gene_copies_of (Some person) one_gene two_genes;
          has_trait = (person \<in> have_trait)
      in case getitem people person of Inl e \<Rightarrow> Inl e
         | Inr info \<Rightarrow>
             (case gene_factor64 info gene_copies one_gene two_genes of Inl e \<Rightarrow> Inl e
              | Inr g \<Rightarrow>
                  (case getitem PROBS_trait64 gene_copies of Inl e \<Rightarrow> Inl e
                   | Inr row \<Rightarrow> Inr (fmul g (row has_trait)))))"

fun joint_loop64 ::
  "people \<Rightarrow> string set \<Rightarrow> string set \<Rightarrow> string set \<Rightarrow> string list \<Rightarrow> binary64
     \<Rightarrow> py_error + binary64" where
  "joint_loop64 people one_gene two_genes have_trait [] joint_prob = Inr joint_prob"
| "joint_loop64 people one_gene two_genes have_trait (person # rest) joint_prob =
     (case person_prob64 people one_gene two_genes have_trait person of Inl e \<Rightarrow> Inl e
      | Inr p \<Rightarrow> joint_loop64 people one_gene two_genes have_trait rest (fmul joint_prob p))"

definition joint_probability64 ::
  "people \<Rightarrow> string set \<Rightarrow> string set \<Rightarrow> string set \<Rightarrow> py_error + binary64" where
  "joint_probability64 people one_gene two_genes have_trait =
     joint_loop64 people one_gene two_genes have_trait (map fst people) (lit 1 1)"

record gene_cells64 =
  gene2_64 :: binary64
  gene1_64 :: binary64
  gene0_64 :: binary64

record trait_cells64 =
  trait_True64 :: binary64
  trait_False64 :: binary64

record distributions64 =
  p_gene64 :: gene_cells64
  p_trait64 :: trait_cells64

type_synonym probabilities64 = "(string \<times> distributions64) list"

definition init_probabilities64 :: "people \<Rightarrow> probabilities64" where
  "init_probabilities64 people =
     map (\<lambda>person. (person,
            \<lparr>p_gene64 = \<lparr>gene2_64 = of_count 0, gene1_64 = of_count 0, gene0_64 = of_count 0\<rparr>,
             p_trait64 = \<lparr>trait_True64 = of_count 0, trait_False64 = of_count 0\<rparr>\<rparr>))
         (map fst people)"

definition update_gene64 ::
  "gene_cells64 \<Rightarrow> string \<Rightarrow> string set \<Rightarrow> string set \<Rightarrow> binary64 \<Rightarrow> gene_cells64" where
  "update_gene64 g person one_gene two_genes p =
     (if person \<in> two_genes then g\<lparr>gene2_64 := fadd (gene2_64 g) p\<rparr>
      else if person \<in> one_gene then g\<lparr>gene1_64 := fadd (gene1_64 g) p\<rparr>
      else g\<lparr>gene0_64 := fadd (gene0_64 g) p\<rparr>)"

definition update_trait64 ::
  "trait_cells64 \<Rightarrow> string \<Rightarrow> string set \<Rightarrow> binary64 \<Rightarrow> trait_cells64" where
  "update_trait64 t person have_trait p =
     (if person \<in> have_trait then t\<lparr>trait_True64 := fadd (trait_True64 t) p\<rparr>
      else t\<lparr>trait_False64 := fadd (trait_False64 t) p\<rparr>)"

definition update_person64 ::
  "distributions64 \<Rightarrow> string \<Rightarrow> string set \<Rightarrow> string set \<Rightarrow> string set \<Rightarrow> binary64
     \<Rightarrow> distributions64" where
  "update_person64 d person one_gene two_genes have_trait p =
     \<lparr>p_gene64 = update_gene64 (p_gene64 d) person one_gene two_genes p,
      p_trait64 = update_trait64 (p_trait64 d) person have_trait p\<rparr>"

fun update_loop64 ::
  "probabilities64 \<Rightarrow> string set \<Rightarrow> string set \<Rightarrow> string set \<Rightarrow> binary64 \<Rightarrow> string list
     \<Rightarrow> py_error + probabilities64" where
  "update_loop64 probabilities one_gene two_genes have_trait p [] = Inr probabilities"
| "update_loop64 probabilities one_gene two_genes have_trait p (person # rest) =
     (case getitem probabilities person of Inl e \<Rightarrow> Inl e
      | Inr d \<Rightarrow>
          update_loop64
            (setitem probabilities person
               (update_person64 d person one_gene two_genes have_trait p))
            one_gene two_genes have_trait p rest)"

definition update64 ::
  "probabilities64 \<Rightarrow> string set \<Rightarrow> string set \<Rightarrow> string set \<Rightarrow> binary64
     \<Rightarrow> py_error + probabilities64" where
  "update64 probabilities one_gene two_genes have_trait p =
     update_loop64 probabilities one_gene two_genes have_trait p (map fst probabilities)"

fun gene_loop64 ::
  "people \<Rightarrow> probabilities64 \<Rightarrow> string set \<Rightarrow> (string set \<times> string set) list
     \<Rightarrow> py_error + probabilities64" where
  "gene_loop64 people probabilities have_trait [] = Inr probabilities"
| "gene_loop64 people probabilities have_trait ((one_gene, two_genes) # rest) =
     (case joint_probability64 people one_gene two_genes have_trait of Inl e \<Rightarrow> Inl e
      | Inr p \<Rightarrow>
          (case update64 probabilities one_gene two_genes have_trait p of Inl e \<Rightarrow> Inl e
           | Inr probabilities' \<Rightarrow> gene_loop64 people probabilities' have_trait rest))"

fun trait_loop64 ::
  "people \<Rightarrow> string list \<Rightarrow> probabilities64 \<Rightarrow> string set list
     \<Rightarrow> py_error + probabilities64" where
  "trait_loop64 people names probabilities [] = Inr probabilities"
| "trait_loop64 people names probabilities (have_trait # rest) =
     (case fails_evidence people have_trait names of Inl e \<Rightarrow> Inl e
      | Inr fails \<Rightarrow>
          if fails then trait_loop64 people names probabilities rest
          else
            (case gene_loop64 people probabilities have_trait (gene_partitions names) of
               Inl e \<Rightarrow> Inl e
             | Inr probabilities' \<Rightarrow> trait_loop64 people names probabilities' rest))"

definition accumulate64 :: "people \<Rightarrow> py_error + probabilities64" where
  "accumulate64 people =
     (let probabilities = init_probabilities64 people;
          names = map fst people
      in trait_loop64 people names probabilities (powerset names))"

text \<open>
  The sum of the cells as Python's \<open>sum(d.values())\<close> computes it, from 0 in the order
  of the keys, and the exact sum of the values that the cells hold.
\<close>

definition gene_sum64 :: "gene_cells64 \<Rightarrow> binary64" where
  "gene_sum64 g = fadd (fadd (fadd (of_count 0) (gene2_64 g)) (gene1_64 g)) (gene0_64 g)"

definition trait_sum64 :: "trait_cells64 \<Rightarrow> binary64" where
  "trait_sum64 t = fadd (fadd (of_count 0) (trait_True64 t)) (trait_False64 t)"

definition gene_total64 :: "gene_cells64 \<Rightarrow> real" where
  "gene_total64 g = valof (gene2_64 g) + valof (gene1_64 g) + valof (gene0_64 g)"

definition trait_total64 :: "trait_cells64 \<Rightarrow> real" where
  "trait_total64 t = valof (trait_True64 t) + valof (trait_False64 t)"

section \<open>Properties of \<open>joint_probability\<close>\<close>

subsection \<open>Table lookups and bounds of the factors\<close>

lemma gene_copies_of_cases:
  "gene_copies_of x one_gene two_genes = 0 \<or> gene_copies_of x one_gene two_genes = 1
   \<or> gene_copies_of x one_gene two_genes = 2"
  by (simp add: gene_copies_of_def)

lemma inherit_prob_bounds:
  assumes "c = 0 \<or> c = 1 \<or> c = 2"
    and "mg = 0 \<or> mg = 1 \<or> mg = 2"
    and "fg = 0 \<or> fg = 1 \<or> fg = 2"
  shows "0 \<le> inherit_prob c mg fg \<and> inherit_prob c mg fg \<le> 1"
  using assms by (auto simp add: inherit_prob_def PROBS_mutation_def)

lemma getitem_PROBS_gene:
  "c = 0 \<or> c = 1 \<or> c = 2 \<Longrightarrow>
   getitem PROBS_gene c = Inr (if c = 2 then 0.01 else if c = 1 then 0.03 else 0.96)"
  by (auto simp add: getitem_def PROBS_gene_def)

lemma getitem_PROBS_trait:
  "c = 0 \<or> c = 1 \<or> c = 2 \<Longrightarrow>
   getitem PROBS_trait c =
     Inr (if c = 2 then (\<lambda>t. if t then 0.65 else 0.35)
          else if c = 1 then (\<lambda>t. if t then 0.56 else 0.44)
          else (\<lambda>t. if t then 0.01 else 0.99))"
  by (auto simp add: getitem_def PROBS_trait_def)

lemma gene_factor_with_parents:
  assumes "\<not> (mother info = None \<and> father info = None)"
  shows "gene_factor info c one_gene two_genes =
      Inr (inherit_prob c (gene_copies_of (mother info) one_gene two_genes)
                          (gene_copies_of (father info) one_gene two_genes))"
  using assms by (auto simp add: gene_factor_def)

lemma gene_factor_bounds:
  assumes "c = 0 \<or> c = 1 \<or> c = 2"
  shows "\<exists>g. gene_factor info c one_gene two_genes = Inr g \<and> 0 \<le> g \<and> g \<le> 1"
proof (cases "mother info = None \<and> father info = None")
  case True
  then have "gene_factor info c one_gene two_genes = getitem PROBS_gene c"
    by (simp add: gene_factor_def)
  with assms show ?thesis
    by (auto simp add: getitem_PROBS_gene)
next
  case False
  from gene_factor_with_parents [OF this]
    inherit_prob_bounds [OF assms gene_copies_of_cases gene_copies_of_cases]
  show ?thesis by simp
qed

lemma getitem_mem:
  "k \<in> fst ` set d \<Longrightarrow> \<exists>v. getitem d k = Inr v \<and> (k, v) \<in> set d"
  by (cases "map_of d k") (auto simp add: getitem_def map_of_eq_None_iff dest: map_of_SomeD)

lemma person_prob_bounds:
  assumes "person \<in> fst ` set people"
  shows "\<exists>p. person_prob people one_gene two_genes have_trait person = Inr p
            \<and> 0 \<le> p \<and> p \<le> 1"
proof -
  let ?c = "gene_copies_of (Some person) one_gene two_genes"
  have c: "?c = 0 \<or> ?c = 1 \<or> ?c = 2" by (rule gene_copies_of_cases)
  from getitem_mem [OF assms] obtain info where info: "getitem people person = Inr info"
    by blast
  from gene_factor_bounds [OF c] obtain g where
    g: "gene_factor info ?c one_gene two_genes = Inr g" "0 \<le> g" "g \<le> 1"
    by blast
  from c obtain row where
    row: "getitem PROBS_trait ?c = Inr row" "0 \<le> row (person \<in> have_trait)"
         "row (person \<in> have_trait) \<le> 1"
    by (auto simp add: getitem_PROBS_trait)
  have eq: "person_prob people one_gene two_genes have_trait person
              = Inr (g * row (person \<in> have_trait))"
    by (simp add: person_prob_def info g(1) row(1))
  have "0 \<le> g * row (person \<in> have_trait)"
    using g(2) row(2) by simp
  moreover have "g * row (person \<in> have_trait) \<le> 1"
    using g(2,3) row(2,3) by (simp add: mult_le_one)
  ultimately show ?thesis using eq by simp
qed

lemma joint_loop_bounds:
  assumes "set keys \<subseteq> fst ` set people" and "0 \<le> acc" and "acc \<le> 1"
  shows "\<exists>v. joint_loop people one_gene two_genes have_trait keys acc = Inr v
            \<and> 0 \<le> v \<and> v \<le> 1"
  using assms
proof (induction keys arbitrary: acc)
  case Nil
  then show ?case by simp
next
  case (Cons person rest)
  from Cons.prems(1) have "person \<in> fst ` set people" by simp
  from person_prob_bounds [OF this] obtain p where
    p: "person_prob people one_gene two_genes have_trait person = Inr p" "0 \<le> p" "p \<le> 1"
    by blast
  have "0 \<le> acc * p" using Cons.prems(2) p(2) by simp
  moreover have "acc * p \<le> 1" using Cons.prems(2,3) p(2,3) by (simp add: mult_le_one)
  moreover have "set rest \<subseteq> fst ` set people" using Cons.prems(1) by simp
  ultimately show ?case using Cons.IH [of "acc * p"] p(1) by simp
qed

lemma joint_probability_total:
  "\<exists>v. joint_probability people one_gene two_genes have_trait = Inr v"
proof -
  have "set (map fst people) \<subseteq> fst ` set people" by simp
  from joint_loop_bounds [OF this, of 1 one_gene two_genes have_trait]
  show ?thesis by (auto simp add: joint_probability_def)
qed

subsection \<open>The claims on the evaluator\<close>

text \<open>
  Where neither parent is assigned exactly one copy, the code's factor is the
  specification's transmission model.
\<close>

lemma inherit_prob_agrees_without_one_copy_parent:
  assumes "mg = 0 \<or> mg = 2" and "fg = 0 \<or> fg = 2" and "c = 0 \<or> c = 1 \<or> c = 2"
  shows "inherit_prob c mg fg = spec_gene_factor c mg fg"
  using assms
  by (auto simp add: inherit_prob_def spec_gene_factor_def spec_transmit_def PROBS_mutation_def)

text \<open>
  C1. The claim: for an individual with recorded parents the gene-count factor is the
  specification's transmission model, where a parent with gene count 1 transmits with
  probability 0.5. The code departs from it at a parent with one copy: for the child
  \<open>C\<close> of \<open>M\<close> and \<open>F\<close>, with \<open>M\<close> assigned one copy and \<open>C\<close>, \<open>F\<close> none,
  the code's factor is \<open>0.01 * 0.99 = 0.0099\<close>, the model's is
  \<open>(1 - 0.5) * (1 - 0.01) = 0.495\<close>.
\<close>

theorem gene_factor_one_copy_parent_divergence:
  "gene_factor \<lparr>name = ''C'', mother = Some ''M'', father = Some ''F'', trait = None\<rparr>
       (gene_copies_of (Some ''C'') {''M''} {}) {''M''} {} = Inr 0.0099
   \<and> spec_gene_factor (gene_copies_of (Some ''C'') {''M''} {})
         (gene_copies_of (Some ''M'') {''M''} {})
         (gene_copies_of (Some ''F'') {''M''} {}) = 0.495
   \<and> spec_transmit 1 = 0.5"
  by (simp add: gene_factor_def gene_copies_of_def opt_in_def inherit_prob_def
      PROBS_mutation_def spec_gene_factor_def spec_transmit_def)

text \<open>
  C2. For every pedigree and every hypothesis, \<open>joint_probability\<close> returns a value
  (it raises nothing), and the value lies between 0 and 1.
\<close>

theorem joint_probability_in_unit_interval:
  "\<exists>v. joint_probability people one_gene two_genes have_trait = Inr v \<and> 0 \<le> v \<and> v \<le> 1"
proof -
  have keys: "set (map fst people) \<subseteq> fst ` set people" by simp
  have start: "(0::real) \<le> 1" "(1::real) \<le> 1" by simp_all
  from joint_loop_bounds [OF keys start]
  show ?thesis by (simp only: joint_probability_def)
qed

text \<open>
  C8. For a child whose mother and father are both in \<open>two_genes\<close>, the gene-count factor
  is exactly 0.0001 at gene count 0 and exactly 0.9801 at gene count 2, and these are the
  factors the loop body of \<open>joint_probability\<close> multiplies by the trait probability
  of the child.
\<close>

theorem both_parents_two_copies:
  assumes "getitem people child = Inr info"
    and "mother info = Some m" and "father info = Some f"
    and "m \<in> two_genes" and "f \<in> two_genes"
  shows "gene_factor info 0 one_gene two_genes = Inr 0.0001
       \<and> gene_factor info 2 one_gene two_genes = Inr 0.9801
       \<and> person_prob people one_gene two_genes have_trait child =
           Inr (if child \<in> two_genes then 0.9801 * (if child \<in> have_trait then 0.65 else 0.35)
                else if child \<in> one_gene
                  then 0.0198 * (if child \<in> have_trait then 0.56 else 0.44)
                else 0.0001 * (if child \<in> have_trait then 0.01 else 0.99))"
  using assms
  by (simp add: person_prob_def gene_factor_def gene_copies_of_def opt_in_def inherit_prob_def
      PROBS_mutation_def getitem_PROBS_trait)

theorem both_parents_two_copies_witness:
  "gene_factor \<lparr>name = ''C'', mother = Some ''M'', father = Some ''F'', trait = None\<rparr>
       0 {} {''M'', ''F''} = Inr 0.0001
   \<and> gene_factor \<lparr>name = ''C'', mother = Some ''M'', father = Some ''F'', trait = None\<rparr>
       2 {} {''M'', ''F''} = Inr 0.9801
   \<and> person_prob
       [(''C'', \<lparr>name = ''C'', mother = Some ''M'', father = Some ''F'', trait = None\<rparr>),
        (''M'', \<lparr>name = ''M'', mother = None, father = None, trait = None\<rparr>),
        (''F'', \<lparr>name = ''F'', mother = None, father = None, trait = None\<rparr>)]
       {} {''M'', ''F''} {} ''C'' = Inr (0.0001 * 0.99)"
  using both_parents_two_copies
    [of "[(''C'', \<lparr>name = ''C'', mother = Some ''M'', father = Some ''F'', trait = None\<rparr>),
          (''M'', \<lparr>name = ''M'', mother = None, father = None, trait = None\<rparr>),
          (''F'', \<lparr>name = ''F'', mother = None, father = None, trait = None\<rparr>)]"
        "''C''"
        "\<lparr>name = ''C'', mother = Some ''M'', father = Some ''F'', trait = None\<rparr>"
        "''M''" "''F''" "{''M'', ''F''}" "{}" "{}"]
  by (simp add: getitem_def)

section \<open>Properties of the dictionary loops\<close>

subsection \<open>\<open>update\<close> and \<open>normalize\<close> entry by entry\<close>

text \<open>
  On a dictionary (distinct keys) a loop that reads and writes only the entry of the
  current key rewrites each entry once, in place.
\<close>

lemma getitem_append_fresh:
  "k \<notin> fst ` set done \<Longrightarrow> getitem (done @ (k, d) # todo) k = Inr d"
  by (simp add: getitem_def map_add_def map_of_eq_None_iff [THEN iffD2])

lemma setitem_append_fresh:
  "k \<notin> fst ` set done \<Longrightarrow> setitem (done @ (k, d) # todo) k v = done @ (k, v) # todo"
  by (induction "done") auto

lemma update_loop_entries:
  "distinct (map fst (done @ todo)) \<Longrightarrow>
   update_loop (done @ todo) one_gene two_genes have_trait p (map fst todo) =
     Inr (done @ map (\<lambda>(k, d). (k, update_person d k one_gene two_genes have_trait p)) todo)"
proof (induction todo arbitrary: "done")
  case Nil
  then show ?case by simp
next
  case (Cons e todo)
  obtain k d where e: "e = (k, d)" by (cases e)
  from Cons.prems e have fresh: "k \<notin> fst ` set done" by auto
  from Cons.prems e have dist: "distinct (map fst ((done @ [(k, v)]) @ todo))" for v
    by auto
  show ?case
    using Cons.IH [OF dist] fresh
    by (simp add: e getitem_append_fresh setitem_append_fresh)
qed

lemma update_entries:
  assumes "distinct (map fst probabilities)"
  shows "update probabilities one_gene two_genes have_trait p =
     Inr (map (\<lambda>(k, d). (k, update_person d k one_gene two_genes have_trait p)) probabilities)"
  using update_loop_entries [of "[]" probabilities] assms by (simp add: update_def)

lemma normalize_gene_total:
  "normalize_gene g =
     Inr (if gene_sum g > 0
          then \<lparr>gene2 = gene2 g / gene_sum g, gene1 = gene1 g / gene_sum g,
                gene0 = gene0 g / gene_sum g\<rparr>
          else g)"
  by (simp add: normalize_gene_def py_div_def)

lemma normalize_trait_total:
  "normalize_trait t =
     Inr (if trait_sum t > 0
          then \<lparr>trait_True = trait_True t / trait_sum t, trait_False = trait_False t / trait_sum t\<rparr>
          else t)"
  by (simp add: normalize_trait_def py_div_def)

lemma normalize_person_total:
  "normalize_person d =
     Inr \<lparr>p_gene = projr (normalize_gene (p_gene d)),
          p_trait = projr (normalize_trait (p_trait d))\<rparr>"
  by (simp add: normalize_person_def normalize_gene_total normalize_trait_total)

lemma normalize_loop_entries:
  "distinct (map fst (done @ todo)) \<Longrightarrow>
   normalize_loop (done @ todo) (map fst todo) =
     Inr (done @ map (\<lambda>(k, d). (k, projr (normalize_person d))) todo)"
proof (induction todo arbitrary: "done")
  case Nil
  then show ?case by simp
next
  case (Cons e todo)
  obtain k d where e: "e = (k, d)" by (cases e)
  from Cons.prems e have fresh: "k \<notin> fst ` set done" by auto
  from Cons.prems e have dist: "distinct (map fst ((done @ [(k, v)]) @ todo))" for v
    by auto
  show ?case
    using Cons.IH [OF dist] fresh
    by (simp add: e getitem_append_fresh setitem_append_fresh normalize_person_total)
qed

lemma normalize_entries:
  assumes "distinct (map fst probabilities)"
  shows "normalize_probabilities probabilities =
     Inr (map (\<lambda>(k, d). (k, projr (normalize_person d))) probabilities)"
  using normalize_loop_entries [of "[]" probabilities] assms
  by (simp add: normalize_probabilities_def)

lemma setitem_keys:
  "k \<in> fst ` set d \<Longrightarrow> map fst (setitem d k v) = map fst d"
  by (induction d) force+

lemma normalize_loop_total:
  "set keys \<subseteq> fst ` set probabilities \<Longrightarrow>
   \<exists>probabilities'. normalize_loop probabilities keys = Inr probabilities'"
proof (induction keys arbitrary: probabilities)
  case Nil
  then show ?case by simp
next
  case (Cons k keys)
  then have k: "k \<in> fst ` set probabilities" by simp
  then obtain d where d: "getitem probabilities k = Inr d"
    by (cases "map_of probabilities k") (auto simp add: getitem_def map_of_eq_None_iff)
  have "set (map fst (setitem probabilities k v)) = set (map fst probabilities)" for v
    using setitem_keys [OF k] by simp
  then have "set keys \<subseteq> fst ` set (setitem probabilities k v)" for v
    using Cons.prems by simp
  from Cons.IH [OF this] show ?case
    by (simp add: d normalize_person_total)
qed

subsection \<open>The evidence filter and the accumulation loops\<close>

lemma getitem_entries:
  assumes "distinct (map fst xs)" and "(k, v) \<in> set xs"
  shows "getitem (map (\<lambda>(k, d). (k, F k d)) xs) k = Inr (F k v)"
proof -
  have "map_of (map (\<lambda>(k, d). (k, F k d)) xs) k = Some (F k v)"
    using assms by (induction xs) (auto simp add: rev_image_eqI)
  then show ?thesis by (simp add: getitem_def)
qed

lemma keys_entries: "map fst (map (\<lambda>(k, d). (k, F k d)) xs) = map fst xs"
  by (induction xs) auto

lemma init_probabilities_keys: "map fst (init_probabilities people) = map fst people"
  by (simp add: init_probabilities_def comp_def)

lemma fails_evidence_char:
  "set names \<subseteq> fst ` set people \<Longrightarrow>
   fails_evidence people have_trait names =
     Inr (\<exists>person \<in> set names. \<exists>info. map_of people person = Some info
            \<and> trait info \<noteq> None \<and> trait info \<noteq> Some (person \<in> have_trait))"
proof (induction names)
  case Nil
  then show ?case by simp
next
  case (Cons person rest)
  then have "person \<in> fst ` set people" by simp
  then obtain info where info: "map_of people person = Some info"
    by (cases "map_of people person") (auto simp add: map_of_eq_None_iff)
  then have g: "getitem people person = Inr info" by (simp add: getitem_def)
  from Cons have IH: "fails_evidence people have_trait rest =
     Inr (\<exists>person \<in> set rest. \<exists>info. map_of people person = Some info
            \<and> trait info \<noteq> None \<and> trait info \<noteq> Some (person \<in> have_trait))"
    by simp
  show ?case
    by (simp add: g IH info)
qed

lemma evidence_pointwise:
  "(t \<noteq> None \<and> t \<noteq> Some b) = (\<not> ((t = Some True \<longrightarrow> b) \<and> (t = Some False \<longrightarrow> \<not> b)))"
  by (cases t) auto

lemma fails_evidence_consistent:
  assumes "distinct (map fst people)"
  shows "fails_evidence people have_trait (map fst people) =
           Inr (\<not> evidence_consistent people have_trait)"
proof -
  have "(\<exists>person \<in> set (map fst people). \<exists>info. map_of people person = Some info
            \<and> trait info \<noteq> None \<and> trait info \<noteq> Some (person \<in> have_trait))
        = (\<exists>(person, info) \<in> set people.
             trait info \<noteq> None \<and> trait info \<noteq> Some (person \<in> have_trait))"
    (is "?L = ?R")
  proof
    assume ?L
    then obtain person info where "map_of people person = Some info"
      "trait info \<noteq> None \<and> trait info \<noteq> Some (person \<in> have_trait)"
      by blast
    moreover from this have "(person, info) \<in> set people" by (simp add: map_of_SomeD)
    ultimately show ?R by blast
  next
    assume ?R
    then obtain person info where pi: "(person, info) \<in> set people"
      "trait info \<noteq> None \<and> trait info \<noteq> Some (person \<in> have_trait)"
      by blast
    from pi(1) assms have "map_of people person = Some info" by simp
    moreover from pi(1) have "person \<in> set (map fst people)" by force
    ultimately show ?L using pi(2) by blast
  qed
  also have "\<dots> = (\<not> evidence_consistent people have_trait)"
    by (unfold evidence_consistent_def split_def evidence_pointwise) blast
  finally show ?thesis
    using fails_evidence_char [of "map fst people" people have_trait] by simp
qed

lemma gene_loop_invariant:
  assumes "distinct (map fst probabilities)" and "I probabilities"
    and step: "\<And>probs one_gene two_genes p.
       distinct (map fst probs) \<Longrightarrow> I probs \<Longrightarrow>
       I (map (\<lambda>(k, d). (k, update_person d k one_gene two_genes have_trait p)) probs)"
  shows "\<exists>probabilities'. gene_loop people probabilities have_trait parts = Inr probabilities'
           \<and> map fst probabilities' = map fst probabilities \<and> I probabilities'"
  using assms(1,2)
proof (induction parts arbitrary: probabilities)
  case Nil
  then show ?case by simp
next
  case (Cons part parts)
  obtain one_gene two_genes where part: "part = (one_gene, two_genes)" by (cases part)
  obtain p where p: "joint_probability people one_gene two_genes have_trait = Inr p"
    using joint_probability_total by blast
  let ?probs = "map (\<lambda>(k, d). (k, update_person d k one_gene two_genes have_trait p)) probabilities"
  have u: "update probabilities one_gene two_genes have_trait p = Inr ?probs"
    by (rule update_entries [OF Cons.prems(1)])
  have k: "map fst ?probs = map fst probabilities" by (rule keys_entries)
  have "distinct (map fst ?probs)" using Cons.prems(1) by (simp only: k)
  moreover have "I ?probs" by (rule step [OF Cons.prems])
  ultimately obtain probabilities' where r:
    "gene_loop people ?probs have_trait parts = Inr probabilities'"
    "map fst probabilities' = map fst ?probs" "I probabilities'"
    using Cons.IH by blast
  have "gene_loop people probabilities have_trait (part # parts) = Inr probabilities'"
    using r(1) by (simp only: part gene_loop.simps p u sum.case)
  moreover have "map fst probabilities' = map fst probabilities"
    using r(2) by (simp only: k)
  ultimately show ?case using r(3) by (intro exI [of _ probabilities'] conjI)
qed

lemma trait_loop_invariant:
  assumes "distinct (map fst probabilities)" and "I probabilities"
    and "set names \<subseteq> fst ` set people"
    and step: "\<And>probs have_trait one_gene two_genes p.
       fails_evidence people have_trait names = Inr False \<Longrightarrow>
       distinct (map fst probs) \<Longrightarrow> I probs \<Longrightarrow>
       I (map (\<lambda>(k, d). (k, update_person d k one_gene two_genes have_trait p)) probs)"
  shows "\<exists>probabilities'. trait_loop people names probabilities subsets = Inr probabilities'
           \<and> map fst probabilities' = map fst probabilities \<and> I probabilities'"
  using assms(1,2)
proof (induction subsets arbitrary: probabilities)
  case Nil
  then show ?case by simp
next
  case (Cons have_trait subsets)
  obtain fails where f: "fails_evidence people have_trait names = Inr fails"
    using fails_evidence_char [OF assms(3)] by blast
  show ?case
  proof (cases fails)
    case True
    then show ?thesis using Cons f by simp
  next
    case False
    with f have f': "fails_evidence people have_trait names = Inr False" by simp
    from gene_loop_invariant [where I = I, OF Cons.prems step [OF f']]
    obtain probs where probs:
      "gene_loop people probabilities have_trait (gene_partitions names) = Inr probs"
      "map fst probs = map fst probabilities" "I probs"
      by blast
    have "distinct (map fst probs)" using probs(2) Cons.prems(1) by simp
    from Cons.IH [OF this probs(3)] obtain probabilities' where r:
      "trait_loop people names probs subsets = Inr probabilities'"
      "map fst probabilities' = map fst probs" "I probabilities'"
      by blast
    have "trait_loop people names probabilities (have_trait # subsets) = Inr probabilities'"
      using r(1) by (simp add: f' probs(1))
    moreover have "map fst probabilities' = map fst probabilities"
      using r(2) probs(2) by simp
    ultimately show ?thesis using r(3) by (intro exI [of _ probabilities'] conjI)
  qed
qed

lemma balanced_step:
  "balanced probs \<Longrightarrow>
   balanced (map (\<lambda>(k, d). (k, update_person d k one_gene two_genes have_trait p)) probs)"
  by (auto simp add: balanced_def update_person_def update_gene_def update_trait_def
      gene_sum_def trait_sum_def)

lemma balanced_init: "balanced (init_probabilities people)"
  by (auto simp add: balanced_def init_probabilities_def gene_sum_def trait_sum_def)

lemma accumulate_invariant:
  assumes "distinct (map fst people)" and "I (init_probabilities people)"
    and step: "\<And>probs have_trait one_gene two_genes p.
       fails_evidence people have_trait (map fst people) = Inr False \<Longrightarrow>
       distinct (map fst probs) \<Longrightarrow> I probs \<Longrightarrow>
       I (map (\<lambda>(k, d). (k, update_person d k one_gene two_genes have_trait p)) probs)"
  shows "\<exists>probabilities. accumulate people = Inr probabilities
           \<and> map fst probabilities = map fst people \<and> I probabilities"
proof -
  have d: "distinct (map fst (init_probabilities people))"
    using assms(1) by (simp only: init_probabilities_keys)
  have s: "set (map fst people) \<subseteq> fst ` set people" by simp
  from trait_loop_invariant [where I = I, OF d assms(2) s step,
      of "powerset (map fst people)"]
  show ?thesis
    by (simp add: accumulate_def Let_def init_probabilities_keys)
qed

lemma main_total:
  assumes "distinct (map fst people)"
  shows "\<exists>probabilities. main people = Inr probabilities
            \<and> map fst probabilities = map fst people"
proof -
  from accumulate_invariant [where I = "\<lambda>_. True", OF assms]
  obtain probs where probs: "accumulate people = Inr probs" "map fst probs = map fst people"
    by blast
  have "distinct (map fst probs)" using assms probs(2) by simp
  from normalize_entries [OF this] have "main people =
      Inr (map (\<lambda>(k, d). (k, projr (normalize_person d))) probs)"
    by (simp add: main_def probs)
  moreover have "map fst (map (\<lambda>(k, d). (k, projr (normalize_person d))) probs)
      = map fst people"
    using probs(2) by (simp only: keys_entries)
  ultimately show ?thesis by (intro exI conjI)
qed

section \<open>The claims on the enumeration and the accumulators\<close>

subsection \<open>The enumeration of the gene partitions\<close>

lemma filter_empty_subseqs: "filter (\<lambda>ys. ys = []) (subseqs xs) = [[]]"
  by (induction xs) (simp_all add: Let_def filter_map comp_def)

lemma combinations_filter:
  "combinations xs r = filter (\<lambda>ys. length ys = r) (subseqs xs)"
proof (induction xs r rule: combinations.induct)
  case (1 xs)
  then show ?case by (simp add: filter_empty_subseqs)
next
  case (2 r)
  then show ?case by simp
next
  case (3 x xs r)
  then show ?case by (simp add: Let_def filter_map comp_def)
qed

lemma length_subseqs_le: "ys \<in> set (subseqs xs) \<Longrightarrow> length ys \<le> length xs"
  by (induction xs arbitrary: ys) (fastforce simp add: Let_def intro: le_SucI)+

lemma distinct_concat_map:
  assumes "distinct rs"
    and "\<And>r. r \<in> set rs \<Longrightarrow> distinct (f r)"
    and "\<And>r r'. r \<in> set rs \<Longrightarrow> r' \<in> set rs \<Longrightarrow> r \<noteq> r' \<Longrightarrow> set (f r) \<inter> set (f r') = {}"
  shows "distinct (concat (map f rs))"
  using assms
proof (induction rs)
  case Nil
  then show ?case by simp
next
  case (Cons r rs)
  have "distinct (concat (map f rs))"
    using Cons by simp
  moreover have "distinct (f r)" using Cons.prems(2) by simp
  moreover have "set (f r) \<inter> set (concat (map f rs)) = {}"
  proof -
    have "set (f r) \<inter> set (f r') = {}" if "r' \<in> set rs" for r'
      using Cons.prems(1) Cons.prems(3) [of r r'] that by auto
    then show ?thesis by auto
  qed
  ultimately show ?case by simp
qed

lemma set_all_combinations:
  "set (concat (map (combinations xs) [0..<length xs + 1])) = set (subseqs xs)"
proof -
  have "ys \<in> set (concat (map (combinations xs) [0..<length xs + 1]))
      \<longleftrightarrow> ys \<in> set (subseqs xs)" for ys
  proof
    assume "ys \<in> set (concat (map (combinations xs) [0..<length xs + 1]))"
    then show "ys \<in> set (subseqs xs)" by (auto simp add: combinations_filter)
  next
    assume m: "ys \<in> set (subseqs xs)"
    from length_subseqs_le [OF this] have "length ys \<in> set [0..<length xs + 1]"
      by auto
    moreover from m have "ys \<in> set (combinations xs (length ys))"
      by (simp add: combinations_filter)
    ultimately show "ys \<in> set (concat (map (combinations xs) [0..<length xs + 1]))"
      unfolding set_concat set_map by blast
  qed
  then show ?thesis by blast
qed

lemma distinct_subseqs: "distinct xs \<Longrightarrow> distinct (subseqs xs)"
  using distinct_set_subseqs [of xs] by (simp add: distinct_map)

lemma distinct_all_combinations:
  assumes "distinct xs"
  shows "distinct (concat (map (combinations xs) [0..<length xs + 1]))"
proof (rule distinct_concat_map)
  show "distinct [0..<length xs + 1]" by simp
next
  fix r show "distinct (combinations xs r)"
    by (simp add: combinations_filter distinct_subseqs [OF assms])
next
  fix r r' :: nat assume "r \<noteq> r'"
  then show "set (combinations xs r) \<inter> set (combinations xs r') = {}"
    by (auto simp add: combinations_filter)
qed

lemma set_powerset: "set (powerset xs) = Pow (set xs)"
  by (simp only: powerset_def set_map set_all_combinations subseqs_powset)

lemma distinct_powerset:
  assumes "distinct xs"
  shows "distinct (powerset xs)"
proof -
  have "inj_on set (set (subseqs xs))"
    using distinct_set_subseqs [OF assms] by (simp add: distinct_map)
  then have "inj_on set (set (concat (map (combinations xs) [0..<length xs + 1])))"
    by (simp only: set_all_combinations)
  with distinct_all_combinations [OF assms] show ?thesis
    by (simp only: powerset_def distinct_map)
qed

lemma set_gene_partitions:
  "set (gene_partitions names) =
     {(one_gene, two_genes). one_gene \<subseteq> set names \<and> two_genes \<subseteq> set names
        \<and> one_gene \<inter> two_genes = {}}"
proof -
  have "(one_gene, two_genes) \<in> set (gene_partitions names) \<longleftrightarrow>
      one_gene \<subseteq> set names \<and> two_genes \<subseteq> set names \<and> one_gene \<inter> two_genes = {}"
    for one_gene two_genes
  proof -
    have "(one_gene, two_genes) \<in> set (gene_partitions names) \<longleftrightarrow>
        one_gene \<in> Pow (set names) \<and> two_genes \<in> Pow {n \<in> set names. n \<notin> one_gene}"
      by (auto simp add: gene_partitions_def set_powerset)
    also have "\<dots> \<longleftrightarrow>
        one_gene \<subseteq> set names \<and> two_genes \<subseteq> set names \<and> one_gene \<inter> two_genes = {}"
      by blast
    finally show ?thesis .
  qed
  then show ?thesis by auto
qed

lemma distinct_gene_partitions:
  assumes "distinct names"
  shows "distinct (gene_partitions names)"
  unfolding gene_partitions_def
proof (rule distinct_concat_map)
  show "distinct (powerset names)" by (rule distinct_powerset [OF assms])
next
  fix one_gene :: "string set"
  have "distinct (filter (\<lambda>n. n \<notin> one_gene) names)" using assms by simp
  from distinct_powerset [OF this]
  show "distinct (map (\<lambda>two_genes. (one_gene, two_genes))
          (powerset (filter (\<lambda>n. n \<notin> one_gene) names)))"
    by (simp add: distinct_map inj_on_def)
next
  fix r r' :: "string set" assume "r \<noteq> r'"
  then show "set (map (Pair r) (powerset (filter (\<lambda>n. n \<notin> r) names)))
      \<inter> set (map (Pair r') (powerset (filter (\<lambda>n. n \<notin> r') names))) = {}"
    by auto
qed

text \<open>
  C3. For names without repetition, the nested enumeration of \<open>main\<close> lists every pair
  of disjoint subsets of the names (the one-gene set and the two-gene set) exactly once,
  and lists no pair whose two sets overlap; \<open>powerset\<close> itself lists every subset of
  its argument exactly once.
\<close>

theorem gene_partitions_exactly_once:
  assumes "distinct names"
  shows "distinct (gene_partitions names)
       \<and> set (gene_partitions names) =
           {(one_gene, two_genes). one_gene \<subseteq> set names \<and> two_genes \<subseteq> set names
              \<and> one_gene \<inter> two_genes = {}}
       \<and> distinct (powerset names) \<and> set (powerset names) = Pow (set names)"
  using distinct_gene_partitions [OF assms] set_gene_partitions [of names]
    distinct_powerset [OF assms] set_powerset [of names]
  by (intro conjI)

theorem gene_partitions_exactly_once_witness:
  "distinct [''A'', ''B'']
   \<and> gene_partitions [''A'', ''B''] =
       [({}, {}), ({}, {''A''}), ({}, {''B''}), ({}, {''A'', ''B''}),
        ({''A''}, {}), ({''A''}, {''B''}),
        ({''B''}, {}), ({''B''}, {''A''}),
        ({''A'', ''B''}, {})]
   \<and> distinct (gene_partitions [''A'', ''B''])"
  using gene_partitions_exactly_once [of "[''A'', ''B'']"]
  by (simp add: gene_partitions_def powerset_def upt_rec numeral_2_eq_2 numeral_3_eq_3)

subsection \<open>The evidence filter\<close>

lemma evidence_step:
  assumes "distinct (map fst people)"
    and "fails_evidence people have_trait (map fst people) = Inr False"
    and inv: "\<forall>(person, d) \<in> set probs. \<forall>info. (person, info) \<in> set people \<longrightarrow>
            (trait info = Some True \<longrightarrow> trait_False (p_trait d) = 0)
          \<and> (trait info = Some False \<longrightarrow> trait_True (p_trait d) = 0)"
  shows "\<forall>(person, d) \<in> set (map (\<lambda>(k, d).
              (k, update_person d k one_gene two_genes have_trait p)) probs).
          \<forall>info. (person, info) \<in> set people \<longrightarrow>
            (trait info = Some True \<longrightarrow> trait_False (p_trait d) = 0)
          \<and> (trait info = Some False \<longrightarrow> trait_True (p_trait d) = 0)"
proof -
  from assms(2) fails_evidence_consistent [OF assms(1), of have_trait]
  have c: "evidence_consistent people have_trait" by simp
  show ?thesis
  proof (intro ballI, clarify)
    fix person d' info
    assume m: "(person, d') \<in> set (map (\<lambda>(k, d).
              (k, update_person d k one_gene two_genes have_trait p)) probs)"
      and i: "(person, info) \<in> set people"
    from m obtain d where d: "(person, d) \<in> set probs"
      "d' = update_person d person one_gene two_genes have_trait p"
      by auto
    from inv d(1) i have old:
      "trait info = Some True \<longrightarrow> trait_False (p_trait d) = 0"
      "trait info = Some False \<longrightarrow> trait_True (p_trait d) = 0"
      by blast+
    from c i have cons:
      "trait info = Some True \<longrightarrow> person \<in> have_trait"
      "trait info = Some False \<longrightarrow> person \<notin> have_trait"
      unfolding evidence_consistent_def by blast+
    show "(trait info = Some True \<longrightarrow> trait_False (p_trait d') = 0)
          \<and> (trait info = Some False \<longrightarrow> trait_True (p_trait d') = 0)"
      using old cons by (simp add: d(2) update_person_def update_trait_def)
  qed
qed

text \<open>
  C4. The filter of \<open>main\<close> rejects a candidate trait subset exactly when it is not
  consistent with the evidence: a rejected subset leaves the accumulators as they are, an
  accepted one runs the loop over the gene partitions. Hence, in the accumulators before
  normalization, the trait-False cell of an individual observed with the trait is exactly
  zero, and the trait-True cell of an individual observed without it is exactly zero.
\<close>

theorem evidence_filter:
  assumes "distinct (map fst people)"
  shows "fails_evidence people have_trait (map fst people) =
           Inr (\<not> evidence_consistent people have_trait)
       \<and> trait_loop people (map fst people) probabilities [have_trait] =
           (if evidence_consistent people have_trait
            then gene_loop people probabilities have_trait (gene_partitions (map fst people))
            else Inr probabilities)
       \<and> (\<exists>accumulated. accumulate people = Inr accumulated
            \<and> map fst accumulated = map fst people
            \<and> (\<forall>(person, d) \<in> set accumulated. \<forall>info. (person, info) \<in> set people \<longrightarrow>
                  (trait info = Some True \<longrightarrow> trait_False (p_trait d) = 0)
                \<and> (trait info = Some False \<longrightarrow> trait_True (p_trait d) = 0)))"
proof (intro conjI)
  show f: "fails_evidence people have_trait (map fst people) =
           Inr (\<not> evidence_consistent people have_trait)"
    by (rule fails_evidence_consistent [OF assms])
  show "trait_loop people (map fst people) probabilities [have_trait] =
           (if evidence_consistent people have_trait
            then gene_loop people probabilities have_trait (gene_partitions (map fst people))
            else Inr probabilities)"
    by (simp add: f split: sum.splits)
  let ?I = "\<lambda>probs. \<forall>(person, d) \<in> set probs. \<forall>info. (person, info) \<in> set people \<longrightarrow>
                  (trait info = Some True \<longrightarrow> trait_False (p_trait d) = 0)
                \<and> (trait info = Some False \<longrightarrow> trait_True (p_trait d) = 0)"
  have init: "?I (init_probabilities people)"
    by (auto simp add: init_probabilities_def)
  show "\<exists>accumulated. accumulate people = Inr accumulated
            \<and> map fst accumulated = map fst people \<and> ?I accumulated"
    by (rule accumulate_invariant [where I = ?I, OF assms init])
       (rule evidence_step [OF assms])
qed

theorem evidence_filter_witness:
  "distinct (map fst [(''A'', \<lparr>name = ''A'', mother = None, father = None, trait = Some True\<rparr>)])
   \<and> evidence_consistent
       [(''A'', \<lparr>name = ''A'', mother = None, father = None, trait = Some True\<rparr>)] {''A''}
   \<and> fails_evidence
       [(''A'', \<lparr>name = ''A'', mother = None, father = None, trait = Some True\<rparr>)]
       {''A''} [''A''] = Inr False
   \<and> accumulate [(''A'', \<lparr>name = ''A'', mother = None, father = None, trait = Some True\<rparr>)]
     = Inr [(''A'', \<lparr>p_gene = \<lparr>gene2 = 0.0065, gene1 = 0.0168, gene0 = 0.0096\<rparr>,
                    p_trait = \<lparr>trait_True = 0.0329, trait_False = 0\<rparr>\<rparr>)]"
  using evidence_filter
    [of "[(''A'', \<lparr>name = ''A'', mother = None, father = None, trait = Some True\<rparr>)]"
        "{''A''}"
        "init_probabilities
           [(''A'', \<lparr>name = ''A'', mother = None, father = None, trait = Some True\<rparr>)]"]
  by (simp add: evidence_consistent_def accumulate_def init_probabilities_def powerset_def
    gene_partitions_def joint_probability_def person_prob_def gene_factor_def getitem_def
    PROBS_gene_def PROBS_trait_def gene_copies_of_def opt_in_def update_def update_person_def
    update_gene_def update_trait_def upt_rec numeral_2_eq_2)

subsection \<open>\<open>normalize\<close>\<close>

text \<open>
  C5. For an individual whose gene cells and whose trait cells both have a strictly
  positive sum, \<open>normalize\<close> returns distributions whose three gene values sum to 1 and
  whose two trait values sum to 1 (so within \<open>1e-9\<close> of 1), each value being the old
  value divided by the old sum, which keeps the proportions.
\<close>

theorem normalize_sums_to_one:
  assumes "distinct (map fst probabilities)"
    and "(person, d) \<in> set probabilities"
    and "gene_sum (p_gene d) > 0" and "trait_sum (p_trait d) > 0"
  shows "\<exists>probabilities' d'.
           normalize_probabilities probabilities = Inr probabilities'
         \<and> map fst probabilities' = map fst probabilities
         \<and> getitem probabilities' person = Inr d'
         \<and> gene_sum (p_gene d') = 1 \<and> trait_sum (p_trait d') = 1
         \<and> \<bar>gene_sum (p_gene d') - 1\<bar> \<le> 1 / 10 ^ 9
         \<and> \<bar>trait_sum (p_trait d') - 1\<bar> \<le> 1 / 10 ^ 9
         \<and> gene2 (p_gene d') = gene2 (p_gene d) / gene_sum (p_gene d)
         \<and> gene1 (p_gene d') = gene1 (p_gene d) / gene_sum (p_gene d)
         \<and> gene0 (p_gene d') = gene0 (p_gene d) / gene_sum (p_gene d)
         \<and> trait_True (p_trait d') = trait_True (p_trait d) / trait_sum (p_trait d)
         \<and> trait_False (p_trait d') = trait_False (p_trait d) / trait_sum (p_trait d)"
proof -
  let ?F = "\<lambda>k d. projr (normalize_person d)"
  let ?probs = "map (\<lambda>(k, d). (k, ?F k d)) probabilities"
  let ?d = "?F person d"
  have n: "normalize_probabilities probabilities = Inr ?probs"
    by (rule normalize_entries [OF assms(1)])
  have k: "map fst ?probs = map fst probabilities" by (rule keys_entries)
  have g: "getitem ?probs person = Inr ?d"
    by (rule getitem_entries [OF assms(1,2)])
  have pg: "p_gene ?d =
      \<lparr>gene2 = gene2 (p_gene d) / gene_sum (p_gene d),
       gene1 = gene1 (p_gene d) / gene_sum (p_gene d),
       gene0 = gene0 (p_gene d) / gene_sum (p_gene d)\<rparr>"
    using assms(3) by (simp add: normalize_person_total normalize_gene_total)
  have pt: "p_trait ?d =
      \<lparr>trait_True = trait_True (p_trait d) / trait_sum (p_trait d),
       trait_False = trait_False (p_trait d) / trait_sum (p_trait d)\<rparr>"
    using assms(4) by (simp add: normalize_person_total normalize_trait_total)
  have gs: "gene_sum (p_gene ?d) = 1"
  proof -
    have "gene_sum (p_gene ?d) =
        (gene2 (p_gene d) + gene1 (p_gene d) + gene0 (p_gene d)) / gene_sum (p_gene d)"
      by (simp only: pg gene_sum_def gene_cells.simps add_divide_distrib)
    also have "\<dots> = gene_sum (p_gene d) / gene_sum (p_gene d)"
      by (simp only: gene_sum_def)
    also have "\<dots> = 1" using assms(3) by simp
    finally show ?thesis .
  qed
  have ts: "trait_sum (p_trait ?d) = 1"
  proof -
    have "trait_sum (p_trait ?d) =
        (trait_True (p_trait d) + trait_False (p_trait d)) / trait_sum (p_trait d)"
      by (simp only: pt trait_sum_def trait_cells.simps add_divide_distrib)
    also have "\<dots> = trait_sum (p_trait d) / trait_sum (p_trait d)"
      by (simp only: trait_sum_def)
    also have "\<dots> = 1" using assms(4) by simp
    finally show ?thesis .
  qed
  have "\<bar>gene_sum (p_gene ?d) - 1\<bar> \<le> 1 / 10 ^ 9" by (simp only: gs) simp
  moreover have "\<bar>trait_sum (p_trait ?d) - 1\<bar> \<le> 1 / 10 ^ 9" by (simp only: ts) simp
  moreover have "gene2 (p_gene ?d) = gene2 (p_gene d) / gene_sum (p_gene d)"
    "gene1 (p_gene ?d) = gene1 (p_gene d) / gene_sum (p_gene d)"
    "gene0 (p_gene ?d) = gene0 (p_gene d) / gene_sum (p_gene d)"
    by (simp_all only: pg gene_cells.simps)
  moreover have "trait_True (p_trait ?d) = trait_True (p_trait d) / trait_sum (p_trait d)"
    "trait_False (p_trait ?d) = trait_False (p_trait d) / trait_sum (p_trait d)"
    by (simp_all only: pt trait_cells.simps)
  ultimately show ?thesis
    using n k g gs ts by (intro exI [of _ ?probs] exI [of _ ?d] conjI)
qed

theorem normalize_sums_to_one_witness:
  "0 < gene_sum \<lparr>gene2 = 1, gene1 = 1, gene0 = 2\<rparr>
   \<and> 0 < trait_sum \<lparr>trait_True = 1, trait_False = 3\<rparr>
   \<and> normalize_probabilities
       [(''A'', \<lparr>p_gene = \<lparr>gene2 = 1, gene1 = 1, gene0 = 2\<rparr>,
                p_trait = \<lparr>trait_True = 1, trait_False = 3\<rparr>\<rparr>)]
     = Inr [(''A'', \<lparr>p_gene = \<lparr>gene2 = 1 / 4, gene1 = 1 / 4, gene0 = 2 / 4\<rparr>,
                    p_trait = \<lparr>trait_True = 1 / 4, trait_False = 3 / 4\<rparr>\<rparr>)]"
  using normalize_sums_to_one
    [of "[(''A'', \<lparr>p_gene = \<lparr>gene2 = 1, gene1 = 1, gene0 = 2\<rparr>,
                p_trait = \<lparr>trait_True = 1, trait_False = 3\<rparr>\<rparr>)]"
        "''A''"
        "\<lparr>p_gene = \<lparr>gene2 = 1, gene1 = 1, gene0 = 2\<rparr>,
          p_trait = \<lparr>trait_True = 1, trait_False = 3\<rparr>\<rparr>"]
  by (simp add: gene_sum_def trait_sum_def normalize_probabilities_def getitem_def
      normalize_person_def normalize_gene_def normalize_trait_def py_div_def)

text \<open>
  C6. \<open>normalize\<close> never raises: no division by zero occurs for any accumulators. A gene
  distribution whose sum is zero is returned unchanged, and so is a trait distribution
  whose sum is zero; the gene result depends on the gene cells only and the trait result
  on the trait cells only, so each is skipped independently of the other.
\<close>

theorem normalize_skips_zero_sum:
  "(\<exists>probabilities'.
      normalize_loop probabilities (map fst probabilities) = Inr probabilities'
    \<and> normalize_probabilities probabilities = Inr probabilities')
   \<and> (gene_sum g = 0 \<longrightarrow> normalize_gene g = Inr g)
   \<and> (trait_sum t = 0 \<longrightarrow> normalize_trait t = Inr t)
   \<and> (\<exists>g' t'. normalize_gene (p_gene d) = Inr g' \<and> normalize_trait (p_trait d) = Inr t'
         \<and> normalize_person d = Inr \<lparr>p_gene = g', p_trait = t'\<rparr>)
   \<and> (distinct (map fst probabilities) \<longrightarrow> (person, d) \<in> set probabilities \<longrightarrow>
        (\<exists>probabilities' d'.
            normalize_probabilities probabilities = Inr probabilities'
          \<and> getitem probabilities' person = Inr d'
          \<and> normalize_gene (p_gene d) = Inr (p_gene d')
          \<and> normalize_trait (p_trait d) = Inr (p_trait d')
          \<and> (gene_sum (p_gene d) = 0 \<longrightarrow> p_gene d' = p_gene d)
          \<and> (trait_sum (p_trait d) = 0 \<longrightarrow> p_trait d' = p_trait d)))"
proof (intro conjI impI)
  have "set (map fst probabilities) \<subseteq> fst ` set probabilities" by simp
  from normalize_loop_total [OF this]
  show "\<exists>probabilities'.
      normalize_loop probabilities (map fst probabilities) = Inr probabilities'
    \<and> normalize_probabilities probabilities = Inr probabilities'"
    by (simp add: normalize_probabilities_def)
next
  assume "gene_sum g = 0"
  then show "normalize_gene g = Inr g" by (simp add: normalize_gene_def)
next
  assume "trait_sum t = 0"
  then show "normalize_trait t = Inr t" by (simp add: normalize_trait_def)
next
  show "\<exists>g' t'. normalize_gene (p_gene d) = Inr g' \<and> normalize_trait (p_trait d) = Inr t'
         \<and> normalize_person d = Inr \<lparr>p_gene = g', p_trait = t'\<rparr>"
    by (simp add: normalize_person_def normalize_gene_total normalize_trait_total)
next
  assume dist: "distinct (map fst probabilities)" and mem: "(person, d) \<in> set probabilities"
  let ?F = "\<lambda>k d. projr (normalize_person d)"
  let ?probs = "map (\<lambda>(k, d). (k, ?F k d)) probabilities"
  let ?d = "?F person d"
  have n: "normalize_probabilities probabilities = Inr ?probs"
    by (rule normalize_entries [OF dist])
  have g: "getitem ?probs person = Inr ?d"
    by (rule getitem_entries [OF dist mem])
  have ng: "normalize_gene (p_gene d) = Inr (p_gene ?d)"
    by (simp add: normalize_person_total normalize_gene_total)
  have nt: "normalize_trait (p_trait d) = Inr (p_trait ?d)"
    by (simp add: normalize_person_total normalize_trait_total)
  have zg: "gene_sum (p_gene d) = 0 \<longrightarrow> p_gene ?d = p_gene d"
    by (simp add: normalize_person_total normalize_gene_total)
  have zt: "trait_sum (p_trait d) = 0 \<longrightarrow> p_trait ?d = p_trait d"
    by (simp add: normalize_person_total normalize_trait_total)
  show "\<exists>probabilities' d'.
            normalize_probabilities probabilities = Inr probabilities'
          \<and> getitem probabilities' person = Inr d'
          \<and> normalize_gene (p_gene d) = Inr (p_gene d')
          \<and> normalize_trait (p_trait d) = Inr (p_trait d')
          \<and> (gene_sum (p_gene d) = 0 \<longrightarrow> p_gene d' = p_gene d)
          \<and> (trait_sum (p_trait d) = 0 \<longrightarrow> p_trait d' = p_trait d)"
    using n g ng nt zg zt by (intro exI [of _ ?probs] exI [of _ ?d] conjI)
qed

theorem normalize_skips_zero_sum_witness:
  "gene_sum \<lparr>gene2 = 0, gene1 = 0, gene0 = 0\<rparr> = 0
   \<and> trait_sum \<lparr>trait_True = 0, trait_False = 0\<rparr> = 0
   \<and> normalize_gene \<lparr>gene2 = 0, gene1 = 0, gene0 = 0\<rparr> = Inr \<lparr>gene2 = 0, gene1 = 0, gene0 = 0\<rparr>
   \<and> normalize_trait \<lparr>trait_True = 0, trait_False = 0\<rparr> = Inr \<lparr>trait_True = 0, trait_False = 0\<rparr>
   \<and> normalize_probabilities
       [(''A'', \<lparr>p_gene = \<lparr>gene2 = 0, gene1 = 0, gene0 = 0\<rparr>,
                p_trait = \<lparr>trait_True = 1, trait_False = 3\<rparr>\<rparr>),
        (''B'', \<lparr>p_gene = \<lparr>gene2 = 1, gene1 = 1, gene0 = 2\<rparr>,
                p_trait = \<lparr>trait_True = 0, trait_False = 0\<rparr>\<rparr>)]
     = Inr [(''A'', \<lparr>p_gene = \<lparr>gene2 = 0, gene1 = 0, gene0 = 0\<rparr>,
                    p_trait = \<lparr>trait_True = 1 / 4, trait_False = 3 / 4\<rparr>\<rparr>),
            (''B'', \<lparr>p_gene = \<lparr>gene2 = 1 / 4, gene1 = 1 / 4, gene0 = 2 / 4\<rparr>,
                    p_trait = \<lparr>trait_True = 0, trait_False = 0\<rparr>\<rparr>)]"
  using normalize_skips_zero_sum
    [of "[(''A'', \<lparr>p_gene = \<lparr>gene2 = 0, gene1 = 0, gene0 = 0\<rparr>,
                p_trait = \<lparr>trait_True = 1, trait_False = 3\<rparr>\<rparr>),
        (''B'', \<lparr>p_gene = \<lparr>gene2 = 1, gene1 = 1, gene0 = 2\<rparr>,
                p_trait = \<lparr>trait_True = 0, trait_False = 0\<rparr>\<rparr>)]"
        "\<lparr>gene2 = 0, gene1 = 0, gene0 = 0\<rparr>"
        "\<lparr>trait_True = 0, trait_False = 0\<rparr>"
        "\<lparr>p_gene = \<lparr>gene2 = 0, gene1 = 0, gene0 = 0\<rparr>,
                p_trait = \<lparr>trait_True = 1, trait_False = 3\<rparr>\<rparr>"
        "''A''"]
  by (simp add: gene_sum_def trait_sum_def normalize_probabilities_def getitem_def
      normalize_person_def normalize_gene_def normalize_trait_def py_div_def)

subsection \<open>A parent that is not in the dataset\<close>

text \<open>
  C7, as claimed: a mother or father name that is no individual of the dataset makes the
  computation raise a structural error. It does not: for the single individual \<open>C\<close>
  whose recorded parents \<open>M\<close> and \<open>F\<close> are absent, \<open>joint_probability\<close> and
  \<open>main\<close> return values.
\<close>

theorem missing_parent_counterexample:
  "joint_probability
     [(''C'', \<lparr>name = ''C'', mother = Some ''M'', father = Some ''F'', trait = None\<rparr>)]
     {} {} {} = Inr (0.99 * 0.99 * 0.99)
   \<and> main [(''C'', \<lparr>name = ''C'', mother = Some ''M'', father = Some ''F'', trait = None\<rparr>)]
       = Inr [(''C'', \<lparr>p_gene = \<lparr>gene2 = 0.0001, gene1 = 0.0198, gene0 = 0.9801\<rparr>,
                      p_trait = \<lparr>trait_True = 0.020954, trait_False = 0.979046\<rparr>\<rparr>)]"
  by (simp add: main_def accumulate_def init_probabilities_def powerset_def gene_partitions_def
    joint_probability_def person_prob_def gene_factor_def getitem_def PROBS_gene_def PROBS_trait_def
    PROBS_mutation_def inherit_prob_def
    gene_copies_of_def opt_in_def update_def update_person_def update_gene_def update_trait_def
    normalize_probabilities_def normalize_person_def normalize_gene_def normalize_trait_def
    gene_sum_def trait_sum_def py_div_def upt_rec numeral_2_eq_2)

text \<open>
  C7, amended. When a recorded mother or father name is no individual of the dataset,
  nothing is raised: \<open>joint_probability\<close> and \<open>main\<close> return values, and for
  \<open>one_gene\<close> and \<open>two_genes\<close> drawn from the names of the dataset (as \<open>main\<close>
  draws them) the missing parent counts as a parent with gene count 0.
\<close>

theorem missing_parent_counts_as_no_copy:
  assumes "distinct (map fst people)"
    and "one_gene \<subseteq> fst ` set people" and "two_genes \<subseteq> fst ` set people"
    and "parent \<notin> fst ` set people"
    and "mother info = Some parent \<or> father info = Some parent"
  shows "(\<exists>v. joint_probability people one_gene two_genes have_trait = Inr v)
       \<and> (\<exists>probabilities. main people = Inr probabilities)
       \<and> gene_copies_of (Some parent) one_gene two_genes = 0
       \<and> gene_factor info gene_copies one_gene two_genes =
           Inr (inherit_prob gene_copies
                  (if mother info = Some parent then 0
                   else gene_copies_of (mother info) one_gene two_genes)
                  (if father info = Some parent then 0
                   else gene_copies_of (father info) one_gene two_genes))"
proof -
  have z: "gene_copies_of (Some parent) one_gene two_genes = 0"
    using assms(2,3,4) by (auto simp add: gene_copies_of_def opt_in_def)
  have "\<not> (mother info = None \<and> father info = None)" using assms(5) by auto
  from gene_factor_with_parents [OF this]
  have "gene_factor info gene_copies one_gene two_genes =
           Inr (inherit_prob gene_copies
                  (if mother info = Some parent then 0
                   else gene_copies_of (mother info) one_gene two_genes)
                  (if father info = Some parent then 0
                   else gene_copies_of (father info) one_gene two_genes))"
    using z by simp
  moreover have "\<exists>v. joint_probability people one_gene two_genes have_trait = Inr v"
    using joint_probability_total by blast
  moreover have "\<exists>probabilities. main people = Inr probabilities"
    using main_total [OF assms(1)] by blast
  ultimately show ?thesis using z by (intro conjI)
qed

theorem missing_parent_counts_as_no_copy_witness:
  "joint_probability
     [(''C'', \<lparr>name = ''C'', mother = Some ''M'', father = Some ''F'', trait = None\<rparr>),
      (''F'', \<lparr>name = ''F'', mother = None, father = None, trait = None\<rparr>)]
     {} {''F''} {} \<noteq> Inl KeyError
   \<and> gene_factor \<lparr>name = ''C'', mother = Some ''M'', father = Some ''F'', trait = None\<rparr>
       0 {} {''F''} = Inr (inherit_prob 0 0 2)"
  using missing_parent_counts_as_no_copy
    [of "[(''C'', \<lparr>name = ''C'', mother = Some ''M'', father = Some ''F'', trait = None\<rparr>),
          (''F'', \<lparr>name = ''F'', mother = None, father = None, trait = None\<rparr>)]"
        "{}" "{''F''}" "''M''"
        "\<lparr>name = ''C'', mother = Some ''M'', father = Some ''F'', trait = None\<rparr>"
        "{}" 0]
  by (auto simp add: gene_copies_of_def opt_in_def)

subsection \<open>The whole pipeline on one individual\<close>

text \<open>
  C9. For the single individual \<open>A\<close> without parents and without observed trait,
  \<open>main\<close> yields the gene distribution \<open>{2: 0.01, 1: 0.03, 0: 0.96}\<close> and the trait
  distribution whose values are the trait-likelihood-weighted sums
  \<open>0.96 * 0.01 + 0.03 * 0.56 + 0.01 * 0.65\<close> (present) and
  \<open>0.96 * 0.99 + 0.03 * 0.44 + 0.01 * 0.35\<close> (absent), each divided by their total.
\<close>

theorem single_individual_posterior:
  "main [(''A'', \<lparr>name = ''A'', mother = None, father = None, trait = None\<rparr>)] =
     Inr [(''A'',
           \<lparr>p_gene = \<lparr>gene2 = 0.01, gene1 = 0.03, gene0 = 0.96\<rparr>,
            p_trait =
              \<lparr>trait_True =
                 (0.96 * 0.01 + 0.03 * 0.56 + 0.01 * 0.65)
                 / ((0.96 * 0.01 + 0.03 * 0.56 + 0.01 * 0.65)
                    + (0.96 * 0.99 + 0.03 * 0.44 + 0.01 * 0.35)),
               trait_False =
                 (0.96 * 0.99 + 0.03 * 0.44 + 0.01 * 0.35)
                 / ((0.96 * 0.01 + 0.03 * 0.56 + 0.01 * 0.65)
                    + (0.96 * 0.99 + 0.03 * 0.44 + 0.01 * 0.35))\<rparr>\<rparr>)]"
  by (simp add: main_def accumulate_def init_probabilities_def powerset_def gene_partitions_def
    joint_probability_def person_prob_def gene_factor_def getitem_def PROBS_gene_def PROBS_trait_def
    gene_copies_of_def opt_in_def update_def update_person_def update_gene_def update_trait_def
    normalize_probabilities_def normalize_person_def normalize_gene_def normalize_trait_def
    gene_sum_def trait_sum_def py_div_def upt_rec numeral_2_eq_2)

subsection \<open>\<open>update\<close> and the sums of the accumulators\<close>

lemma has_mass_step:
  "has_mass mass probs \<Longrightarrow>
   has_mass (mass + p)
     (map (\<lambda>(k, d). (k, update_person d k one_gene two_genes have_trait p)) probs)"
  by (auto simp add: has_mass_def update_person_def update_gene_def update_trait_def
      gene_sum_def trait_sum_def)

lemma has_mass_init: "has_mass 0 (init_probabilities people)"
  by (auto simp add: has_mass_def init_probabilities_def gene_sum_def trait_sum_def)

lemma has_mass_balanced: "has_mass mass probs \<Longrightarrow> balanced probs"
  by (auto simp add: has_mass_def balanced_def)

lemma gene_loop_mass:
  assumes "distinct (map fst probabilities)" and "has_mass mass probabilities"
  shows "\<exists>probabilities'. gene_loop people probabilities have_trait parts = Inr probabilities'
           \<and> map fst probabilities' = map fst probabilities
           \<and> has_mass (mass + joint_mass people have_trait parts) probabilities'"
  using assms
proof (induction parts arbitrary: probabilities mass)
  case Nil
  then show ?case by (simp add: joint_mass_def)
next
  case (Cons part parts)
  obtain one_gene two_genes where part: "part = (one_gene, two_genes)" by (cases part)
  obtain p where p: "joint_probability people one_gene two_genes have_trait = Inr p"
    using joint_probability_total by blast
  let ?probs = "map (\<lambda>(k, d). (k, update_person d k one_gene two_genes have_trait p)) probabilities"
  have u: "update probabilities one_gene two_genes have_trait p = Inr ?probs"
    by (rule update_entries [OF Cons.prems(1)])
  have k: "map fst ?probs = map fst probabilities" by (rule keys_entries)
  have d: "distinct (map fst ?probs)" using Cons.prems(1) by (simp only: k)
  have m: "has_mass (mass + p) ?probs" by (rule has_mass_step [OF Cons.prems(2)])
  from Cons.IH [OF d m] obtain probabilities' where r:
    "gene_loop people ?probs have_trait parts = Inr probabilities'"
    "map fst probabilities' = map fst ?probs"
    "has_mass (mass + p + joint_mass people have_trait parts) probabilities'"
    by blast
  have "gene_loop people probabilities have_trait (part # parts) = Inr probabilities'"
    using r(1) by (simp only: part gene_loop.simps p u sum.case)
  moreover have "map fst probabilities' = map fst probabilities"
    using r(2) by (simp only: k)
  moreover have "has_mass (mass + joint_mass people have_trait (part # parts)) probabilities'"
  proof -
    have "mass + p + joint_mass people have_trait parts
        = mass + joint_mass people have_trait (part # parts)"
      by (simp add: joint_mass_def part p)
    with r(3) show ?thesis by (simp only:)
  qed
  ultimately show ?case by (intro exI [of _ probabilities'] conjI)
qed

lemma trait_loop_mass:
  assumes "distinct (map fst people)"
    and "distinct (map fst probabilities)" and "has_mass mass probabilities"
  shows "\<exists>probabilities'.
           trait_loop people (map fst people) probabilities subsets = Inr probabilities'
           \<and> map fst probabilities' = map fst probabilities
           \<and> has_mass (mass + accumulated_mass people subsets) probabilities'"
  using assms(2,3)
proof (induction subsets arbitrary: probabilities mass)
  case Nil
  then show ?case by (simp add: accumulated_mass_def)
next
  case (Cons have_trait subsets)
  have f: "fails_evidence people have_trait (map fst people) =
      Inr (\<not> evidence_consistent people have_trait)"
    by (rule fails_evidence_consistent [OF assms(1)])
  show ?case
  proof (cases "evidence_consistent people have_trait")
    case False
    then have "accumulated_mass people (have_trait # subsets) = accumulated_mass people subsets"
      by (simp add: accumulated_mass_def)
    with Cons.IH [OF Cons.prems] False show ?thesis by (simp add: f)
  next
    case True
    let ?m = "joint_mass people have_trait (gene_partitions (map fst people))"
    from gene_loop_mass [OF Cons.prems, of people have_trait "gene_partitions (map fst people)"]
    obtain probs where probs:
      "gene_loop people probabilities have_trait (gene_partitions (map fst people)) = Inr probs"
      "map fst probs = map fst probabilities" "has_mass (mass + ?m) probs"
      by blast
    have d: "distinct (map fst probs)" using probs(2) Cons.prems(1) by simp
    from Cons.IH [OF d probs(3)] obtain probabilities' where r:
      "trait_loop people (map fst people) probs subsets = Inr probabilities'"
      "map fst probabilities' = map fst probs"
      "has_mass (mass + ?m + accumulated_mass people subsets) probabilities'"
      by blast
    have "trait_loop people (map fst people) probabilities (have_trait # subsets)
        = Inr probabilities'"
      using r(1) True by (simp add: f probs(1))
    moreover have "map fst probabilities' = map fst probabilities"
      using r(2) probs(2) by simp
    moreover have "has_mass (mass + accumulated_mass people (have_trait # subsets))
        probabilities'"
    proof -
      have "mass + ?m + accumulated_mass people subsets
          = mass + accumulated_mass people (have_trait # subsets)"
        using True by (simp add: accumulated_mass_def)
      with r(3) show ?thesis by (simp only:)
    qed
    ultimately show ?thesis by (intro exI [of _ probabilities'] conjI)
  qed
qed

text \<open>
  The run of \<open>main\<close> on the single individual \<open>A\<close> without parents and without
  observed trait, in binary64: the six joint probabilities and the six calls of
  \<open>update\<close>, in the order of the loops.
\<close>

lemmas float_eval = fmul_def fadd_def fsub_def fneg_def fhalf_def fless_def of_count_def lit_def
  round64_def round_half_even_def Let_def

lemma gene_partitions_single:
  "gene_partitions [''A''] = [({}, {}), ({}, {''A''}), ({''A''}, {})]"
  by (simp add: gene_partitions_def powerset_def upt_rec numeral_2_eq_2)

lemma powerset_single: "powerset [''A''] = [{}, {''A''}]"
  by (simp add: powerset_def upt_rec numeral_2_eq_2)

lemma init_probabilities64_single:
  "init_probabilities64 [(''A'', \<lparr>name = ''A'', mother = None, father = None, trait = None\<rparr>)]
   = [(''A'',
         \<lparr>p_gene64 = \<lparr>gene2_64 = (0, 0), gene1_64 = (0, 0),
                      gene0_64 = (0, 0)\<rparr>,
          p_trait64 = \<lparr>trait_True64 = (0, 0),
                       trait_False64 = (0, 0)\<rparr>\<rparr>)]"
  by (simp add: init_probabilities64_def of_count_def)

lemma joint_probability64_step1:
  "joint_probability64 [(''A'', \<lparr>name = ''A'', mother = None, father = None, trait = None\<rparr>)]
     {} {} {} = Inr (8560442171705838, - 53)"
  by (simp add: joint_probability64_def person_prob64_def gene_factor64_def getitem_def
      PROBS_gene64_def PROBS_trait64_def gene_copies_of_def opt_in_def float_eval)

lemma update64_step1:
  "update64
     [(''A'',
         \<lparr>p_gene64 = \<lparr>gene2_64 = (0, 0), gene1_64 = (0, 0),
                      gene0_64 = (0, 0)\<rparr>,
          p_trait64 = \<lparr>trait_True64 = (0, 0),
                       trait_False64 = (0, 0)\<rparr>\<rparr>)]
     {} {} {} (8560442171705838, - 53)
   = Inr [(''A'',
         \<lparr>p_gene64 = \<lparr>gene2_64 = (0, 0), gene1_64 = (0, 0),
                      gene0_64 = (8560442171705838, - 53)\<rparr>,
          p_trait64 = \<lparr>trait_True64 = (0, 0),
                       trait_False64 = (8560442171705838, - 53)\<rparr>\<rparr>)]"
  by (simp add: update64_def update_person64_def update_gene64_def update_trait64_def getitem_def
      float_eval)

lemma joint_probability64_step2:
  "joint_probability64 [(''A'', \<lparr>name = ''A'', mother = None, father = None, trait = None\<rparr>)]
     {} {''A''} {} = Inr (8070450532247928, - 61)"
  by (simp add: joint_probability64_def person_prob64_def gene_factor64_def getitem_def
      PROBS_gene64_def PROBS_trait64_def gene_copies_of_def opt_in_def float_eval)

lemma update64_step2:
  "update64
     [(''A'',
         \<lparr>p_gene64 = \<lparr>gene2_64 = (0, 0), gene1_64 = (0, 0),
                      gene0_64 = (8560442171705838, - 53)\<rparr>,
          p_trait64 = \<lparr>trait_True64 = (0, 0),
                       trait_False64 = (8560442171705838, - 53)\<rparr>\<rparr>)]
     {} {''A''} {} (8070450532247928, - 61)
   = Inr [(''A'',
         \<lparr>p_gene64 = \<lparr>gene2_64 = (8070450532247928, - 61), gene1_64 = (0, 0),
                      gene0_64 = (8560442171705838, - 53)\<rparr>,
          p_trait64 = \<lparr>trait_True64 = (0, 0),
                       trait_False64 = (8591967369097431, - 53)\<rparr>\<rparr>)]"
  by (simp add: update64_def update_person64_def update_gene64_def update_trait64_def getitem_def
      float_eval)

lemma joint_probability64_step3:
  "joint_probability64 [(''A'', \<lparr>name = ''A'', mother = None, father = None, trait = None\<rparr>)]
     {''A''} {} {} = Inr (7609281930405190, - 59)"
  by (simp add: joint_probability64_def person_prob64_def gene_factor64_def getitem_def
      PROBS_gene64_def PROBS_trait64_def gene_copies_of_def opt_in_def float_eval)

lemma update64_step3:
  "update64
     [(''A'',
         \<lparr>p_gene64 = \<lparr>gene2_64 = (8070450532247928, - 61), gene1_64 = (0, 0),
                      gene0_64 = (8560442171705838, - 53)\<rparr>,
          p_trait64 = \<lparr>trait_True64 = (0, 0),
                       trait_False64 = (8591967369097431, - 53)\<rparr>\<rparr>)]
     {''A''} {} {} (7609281930405190, - 59)
   = Inr [(''A'',
         \<lparr>p_gene64 = \<lparr>gene2_64 = (8070450532247928, - 61), gene1_64 = (7609281930405190, - 59),
                      gene0_64 = (8560442171705838, - 53)\<rparr>,
          p_trait64 = \<lparr>trait_True64 = (0, 0),
                       trait_False64 = (8710862399260012, - 53)\<rparr>\<rparr>)]"
  by (simp add: update64_def update_person64_def update_gene64_def update_trait64_def getitem_def
      float_eval)

lemma joint_probability64_step4:
  "joint_probability64 [(''A'', \<lparr>name = ''A'', mother = None, father = None, trait = None\<rparr>)]
     {} {} {''A''} = Inr (5534023222112865, - 59)"
  by (simp add: joint_probability64_def person_prob64_def gene_factor64_def getitem_def
      PROBS_gene64_def PROBS_trait64_def gene_copies_of_def opt_in_def float_eval)

lemma update64_step4:
  "update64
     [(''A'',
         \<lparr>p_gene64 = \<lparr>gene2_64 = (8070450532247928, - 61), gene1_64 = (7609281930405190, - 59),
                      gene0_64 = (8560442171705838, - 53)\<rparr>,
          p_trait64 = \<lparr>trait_True64 = (0, 0),
                       trait_False64 = (8710862399260012, - 53)\<rparr>\<rparr>)]
     {} {} {''A''} (5534023222112865, - 59)
   = Inr [(''A'',
         \<lparr>p_gene64 = \<lparr>gene2_64 = (8070450532247928, - 61), gene1_64 = (7609281930405190, - 59),
                      gene0_64 = (8646911284551352, - 53)\<rparr>,
          p_trait64 = \<lparr>trait_True64 = (5534023222112865, - 59),
                       trait_False64 = (8710862399260012, - 53)\<rparr>\<rparr>)]"
  by (simp add: update64_def update_person64_def update_gene64_def update_trait64_def getitem_def
      float_eval)

lemma joint_probability64_step5:
  "joint_probability64 [(''A'', \<lparr>name = ''A'', mother = None, father = None, trait = None\<rparr>)]
     {} {''A''} {''A''} = Inr (7493989779944506, - 60)"
  by (simp add: joint_probability64_def person_prob64_def gene_factor64_def getitem_def
      PROBS_gene64_def PROBS_trait64_def gene_copies_of_def opt_in_def float_eval)

lemma update64_step5:
  "update64
     [(''A'',
         \<lparr>p_gene64 = \<lparr>gene2_64 = (8070450532247928, - 61), gene1_64 = (7609281930405190, - 59),
                      gene0_64 = (8646911284551352, - 53)\<rparr>,
          p_trait64 = \<lparr>trait_True64 = (5534023222112865, - 59),
                       trait_False64 = (8710862399260012, - 53)\<rparr>\<rparr>)]
     {} {''A''} {''A''} (7493989779944506, - 60)
   = Inr [(''A'',
         \<lparr>p_gene64 = \<lparr>gene2_64 = (5764607523034235, - 59), gene1_64 = (7609281930405190, - 59),
                      gene0_64 = (8646911284551352, - 53)\<rparr>,
          p_trait64 = \<lparr>trait_True64 = (4640509056042559, - 58),
                       trait_False64 = (8710862399260012, - 53)\<rparr>\<rparr>)]"
  by (simp add: update64_def update_person64_def update_gene64_def update_trait64_def getitem_def
      float_eval)

lemma joint_probability64_step6:
  "joint_probability64 [(''A'', \<lparr>name = ''A'', mother = None, father = None, trait = None\<rparr>)]
     {''A''} {} {''A''} = Inr (4842270319348758, - 58)"
  by (simp add: joint_probability64_def person_prob64_def gene_factor64_def getitem_def
      PROBS_gene64_def PROBS_trait64_def gene_copies_of_def opt_in_def float_eval)

lemma update64_step6:
  "update64
     [(''A'',
         \<lparr>p_gene64 = \<lparr>gene2_64 = (5764607523034235, - 59), gene1_64 = (7609281930405190, - 59),
                      gene0_64 = (8646911284551352, - 53)\<rparr>,
          p_trait64 = \<lparr>trait_True64 = (4640509056042559, - 58),
                       trait_False64 = (8710862399260012, - 53)\<rparr>\<rparr>)]
     {''A''} {} {''A''} (4842270319348758, - 58)
   = Inr [(''A'',
         \<lparr>p_gene64 = \<lparr>gene2_64 = (5764607523034235, - 59), gene1_64 = (8646911284551353, - 58),
                      gene0_64 = (8646911284551352, - 53)\<rparr>,
          p_trait64 = \<lparr>trait_True64 = (4741389687695658, - 57),
                       trait_False64 = (8710862399260012, - 53)\<rparr>\<rparr>)]"
  by (simp add: update64_def update_person64_def update_gene64_def update_trait64_def getitem_def
      float_eval)

lemma gene_loop64_first_subset:
  "gene_loop64 [(''A'', \<lparr>name = ''A'', mother = None, father = None, trait = None\<rparr>)]
     (init_probabilities64 [(''A'', \<lparr>name = ''A'', mother = None, father = None, trait = None\<rparr>)])
     {} (gene_partitions [''A''])
   = Inr [(''A'',
         \<lparr>p_gene64 = \<lparr>gene2_64 = (8070450532247928, - 61), gene1_64 = (7609281930405190, - 59),
                      gene0_64 = (8560442171705838, - 53)\<rparr>,
          p_trait64 = \<lparr>trait_True64 = (0, 0),
                       trait_False64 = (8710862399260012, - 53)\<rparr>\<rparr>)]"
  by (simp add: gene_partitions_single init_probabilities64_single
      joint_probability64_step1 joint_probability64_step2 joint_probability64_step3
      update64_step1 update64_step2 update64_step3)

lemma gene_loop64_second_subset:
  "gene_loop64 [(''A'', \<lparr>name = ''A'', mother = None, father = None, trait = None\<rparr>)]
     [(''A'',
         \<lparr>p_gene64 = \<lparr>gene2_64 = (8070450532247928, - 61), gene1_64 = (7609281930405190, - 59),
                      gene0_64 = (8560442171705838, - 53)\<rparr>,
          p_trait64 = \<lparr>trait_True64 = (0, 0),
                       trait_False64 = (8710862399260012, - 53)\<rparr>\<rparr>)]
     {''A''} (gene_partitions [''A''])
   = Inr [(''A'',
         \<lparr>p_gene64 = \<lparr>gene2_64 = (5764607523034235, - 59), gene1_64 = (8646911284551353, - 58),
                      gene0_64 = (8646911284551352, - 53)\<rparr>,
          p_trait64 = \<lparr>trait_True64 = (4741389687695658, - 57),
                       trait_False64 = (8710862399260012, - 53)\<rparr>\<rparr>)]"
  by (simp add: gene_partitions_single
      joint_probability64_step4 joint_probability64_step5 joint_probability64_step6
      update64_step4 update64_step5 update64_step6)

lemma accumulate64_single:
  "accumulate64 [(''A'', \<lparr>name = ''A'', mother = None, father = None, trait = None\<rparr>)]
   = Inr [(''A'',
         \<lparr>p_gene64 = \<lparr>gene2_64 = (5764607523034235, - 59), gene1_64 = (8646911284551353, - 58),
                      gene0_64 = (8646911284551352, - 53)\<rparr>,
          p_trait64 = \<lparr>trait_True64 = (4741389687695658, - 57),
                       trait_False64 = (8710862399260012, - 53)\<rparr>\<rparr>)]"
  by (simp add: accumulate64_def powerset_single getitem_def
      gene_loop64_first_subset gene_loop64_second_subset)

text \<open>
  C10, as claimed: at every point during accumulation the sum of a person's three gene
  cells equals the sum of the person's two trait cells. It does not hold for the values
  the code computes. On the single individual \<open>A\<close>, after the three calls of \<open>update\<close>
  for the first trait subset, the gene cells sum to 0.9671 and the trait cells to
  0.9670999999999998 (as values of \<open>sum\<close>, and the exact sums of the cells differ too);
  at the end of the accumulation the sums are 1.0 and 0.9999999999999999.
\<close>

theorem accumulation_sums_differ_in_binary64:
  "gene_loop64 [(''A'', \<lparr>name = ''A'', mother = None, father = None, trait = None\<rparr>)]
     (init_probabilities64 [(''A'', \<lparr>name = ''A'', mother = None, father = None, trait = None\<rparr>)])
     {} (gene_partitions [''A''])
   = Inr [(''A'',
         \<lparr>p_gene64 = \<lparr>gene2_64 = (8070450532247928, - 61), gene1_64 = (7609281930405190, - 59),
                      gene0_64 = (8560442171705838, - 53)\<rparr>,
          p_trait64 = \<lparr>trait_True64 = (0, 0),
                       trait_False64 = (8710862399260012, - 53)\<rparr>\<rparr>)]
   \<and> gene_sum64
       \<lparr>gene2_64 = (8070450532247928, - 61), gene1_64 = (7609281930405190, - 59),
          gene0_64 = (8560442171705838, - 53)\<rparr>
     = (8710862399260013, - 53)
   \<and> trait_sum64
       \<lparr>trait_True64 = (0, 0),
          trait_False64 = (8710862399260012, - 53)\<rparr>
     = (8710862399260012, - 53)
   \<and> valof (8710862399260012, - 53) < valof (8710862399260013, - 53)
   \<and> gene_total64
       \<lparr>gene2_64 = (8070450532247928, - 61), gene1_64 = (7609281930405190, - 59),
          gene0_64 = (8560442171705838, - 53)\<rparr>
     \<noteq> trait_total64
       \<lparr>trait_True64 = (0, 0),
          trait_False64 = (8710862399260012, - 53)\<rparr>
   \<and> accumulate64 [(''A'', \<lparr>name = ''A'', mother = None, father = None, trait = None\<rparr>)]
     = Inr [(''A'',
         \<lparr>p_gene64 = \<lparr>gene2_64 = (5764607523034235, - 59), gene1_64 = (8646911284551353, - 58),
                      gene0_64 = (8646911284551352, - 53)\<rparr>,
          p_trait64 = \<lparr>trait_True64 = (4741389687695658, - 57),
                       trait_False64 = (8710862399260012, - 53)\<rparr>\<rparr>)]
   \<and> gene_sum64
       \<lparr>gene2_64 = (5764607523034235, - 59), gene1_64 = (8646911284551353, - 58),
          gene0_64 = (8646911284551352, - 53)\<rparr>
     = (9007199254740992, - 53)
   \<and> trait_sum64
       \<lparr>trait_True64 = (4741389687695658, - 57),
          trait_False64 = (8710862399260012, - 53)\<rparr>
     = (9007199254740991, - 53)
   \<and> valof (9007199254740991, - 53) < valof (9007199254740992, - 53)
   \<and> gene_total64
       \<lparr>gene2_64 = (5764607523034235, - 59), gene1_64 = (8646911284551353, - 58),
          gene0_64 = (8646911284551352, - 53)\<rparr>
     \<noteq> trait_total64
       \<lparr>trait_True64 = (4741389687695658, - 57),
          trait_False64 = (8710862399260012, - 53)\<rparr>"
proof -
  have sums: "gene_sum64
       \<lparr>gene2_64 = (8070450532247928, - 61), gene1_64 = (7609281930405190, - 59),
          gene0_64 = (8560442171705838, - 53)\<rparr>
     = (8710862399260013, - 53)"
    "trait_sum64
       \<lparr>trait_True64 = (0, 0),
          trait_False64 = (8710862399260012, - 53)\<rparr>
     = (8710862399260012, - 53)"
    "gene_sum64
       \<lparr>gene2_64 = (5764607523034235, - 59), gene1_64 = (8646911284551353, - 58),
          gene0_64 = (8646911284551352, - 53)\<rparr>
     = (9007199254740992, - 53)"
    "trait_sum64
       \<lparr>trait_True64 = (4741389687695658, - 57),
          trait_False64 = (8710862399260012, - 53)\<rparr>
     = (9007199254740991, - 53)"
    by (simp_all add: gene_sum64_def trait_sum64_def float_eval)
  have less: "valof (8710862399260012, - 53) < valof (8710862399260013, - 53)"
    "valof (9007199254740991, - 53) < valof (9007199254740992, - 53)"
    by (simp_all add: valof_def)
  have totals: "gene_total64
       \<lparr>gene2_64 = (8070450532247928, - 61), gene1_64 = (7609281930405190, - 59),
          gene0_64 = (8560442171705838, - 53)\<rparr>
     \<noteq> trait_total64
       \<lparr>trait_True64 = (0, 0),
          trait_False64 = (8710862399260012, - 53)\<rparr>"
    "gene_total64
       \<lparr>gene2_64 = (5764607523034235, - 59), gene1_64 = (8646911284551353, - 58),
          gene0_64 = (8646911284551352, - 53)\<rparr>
     \<noteq> trait_total64
       \<lparr>trait_True64 = (4741389687695658, - 57),
          trait_False64 = (8710862399260012, - 53)\<rparr>"
    by (simp_all add: gene_total64_def trait_total64_def valof_def)
  show ?thesis
    using gene_loop64_first_subset accumulate64_single sums less totals
    by (intro conjI)
qed

text \<open>
  C10, amended. On accumulators with distinct keys, every call of \<open>update\<close> adds \<open>p\<close>
  to exactly one of the three gene cells and exactly one of the two trait cells of every
  person and leaves the other cells as they are. Therefore, in exact arithmetic, at every
  point of the accumulation of \<open>main\<close> (after any number \<open>n\<close> of trait subsets and
  any number \<open>m\<close> of gene partitions of a further trait subset) the gene cells and the
  trait cells of every person have the same sum, and that sum is the total joint mass
  accumulated so far. The equality is one of exact arithmetic: under the binary64 rounding
  of \<open>+=\<close> the two sums can differ.
\<close>

theorem update_adds_to_one_cell_each:
  assumes "distinct (map fst probabilities)" and "distinct (map fst people)"
  shows "(\<exists>probabilities'.
            update probabilities one_gene two_genes have_trait p = Inr probabilities'
          \<and> map fst probabilities' = map fst probabilities
          \<and> (\<forall>(person, d) \<in> set probabilities. \<exists>d'.
                getitem probabilities' person = Inr d'
              \<and> gene2 (p_gene d') = gene2 (p_gene d) + (if person \<in> two_genes then p else 0)
              \<and> gene1 (p_gene d') =
                  gene1 (p_gene d) + (if person \<notin> two_genes \<and> person \<in> one_gene then p else 0)
              \<and> gene0 (p_gene d') =
                  gene0 (p_gene d) + (if person \<notin> two_genes \<and> person \<notin> one_gene then p else 0)
              \<and> trait_True (p_trait d') =
                  trait_True (p_trait d) + (if person \<in> have_trait then p else 0)
              \<and> trait_False (p_trait d') =
                  trait_False (p_trait d) + (if person \<notin> have_trait then p else 0)
              \<and> gene_sum (p_gene d') = gene_sum (p_gene d) + p
              \<and> trait_sum (p_trait d') = trait_sum (p_trait d) + p)
          \<and> (balanced probabilities \<longrightarrow> balanced probabilities'))
       \<and> (\<forall>n m have_trait'. \<exists>probabilities1 probabilities2.
             trait_loop people (map fst people) (init_probabilities people)
               (take n (powerset (map fst people))) = Inr probabilities1
           \<and> gene_loop people probabilities1 have_trait'
               (take m (gene_partitions (map fst people))) = Inr probabilities2
           \<and> balanced probabilities1 \<and> balanced probabilities2
           \<and> has_mass (accumulated_mass people (take n (powerset (map fst people))))
                 probabilities1
           \<and> has_mass
                 (accumulated_mass people (take n (powerset (map fst people)))
                  + joint_mass people have_trait' (take m (gene_partitions (map fst people))))
                 probabilities2)"
proof (intro conjI allI)
  let ?F = "\<lambda>k d. update_person d k one_gene two_genes have_trait p"
  let ?probs = "map (\<lambda>(k, d). (k, ?F k d)) probabilities"
  have u: "update probabilities one_gene two_genes have_trait p = Inr ?probs"
    by (rule update_entries [OF assms(1)])
  have k: "map fst ?probs = map fst probabilities" by (rule keys_entries)
  have cells: "\<forall>(person, d) \<in> set probabilities. \<exists>d'.
                getitem ?probs person = Inr d'
              \<and> gene2 (p_gene d') = gene2 (p_gene d) + (if person \<in> two_genes then p else 0)
              \<and> gene1 (p_gene d') =
                  gene1 (p_gene d) + (if person \<notin> two_genes \<and> person \<in> one_gene then p else 0)
              \<and> gene0 (p_gene d') =
                  gene0 (p_gene d) + (if person \<notin> two_genes \<and> person \<notin> one_gene then p else 0)
              \<and> trait_True (p_trait d') =
                  trait_True (p_trait d) + (if person \<in> have_trait then p else 0)
              \<and> trait_False (p_trait d') =
                  trait_False (p_trait d) + (if person \<notin> have_trait then p else 0)
              \<and> gene_sum (p_gene d') = gene_sum (p_gene d) + p
              \<and> trait_sum (p_trait d') = trait_sum (p_trait d) + p"
  proof (intro ballI, clarify)
    fix person d assume "(person, d) \<in> set probabilities"
    from getitem_entries [OF assms(1) this, of ?F]
    have "getitem ?probs person = Inr (?F person d)" .
    then show "\<exists>d'.
                getitem ?probs person = Inr d'
              \<and> gene2 (p_gene d') = gene2 (p_gene d) + (if person \<in> two_genes then p else 0)
              \<and> gene1 (p_gene d') =
                  gene1 (p_gene d) + (if person \<notin> two_genes \<and> person \<in> one_gene then p else 0)
              \<and> gene0 (p_gene d') =
                  gene0 (p_gene d) + (if person \<notin> two_genes \<and> person \<notin> one_gene then p else 0)
              \<and> trait_True (p_trait d') =
                  trait_True (p_trait d) + (if person \<in> have_trait then p else 0)
              \<and> trait_False (p_trait d') =
                  trait_False (p_trait d) + (if person \<notin> have_trait then p else 0)
              \<and> gene_sum (p_gene d') = gene_sum (p_gene d) + p
              \<and> trait_sum (p_trait d') = trait_sum (p_trait d) + p"
      by (simp add: update_person_def update_gene_def update_trait_def gene_sum_def
          trait_sum_def)
  qed
  have b: "balanced probabilities \<longrightarrow> balanced ?probs"
    using balanced_step by blast
  show "\<exists>probabilities'.
            update probabilities one_gene two_genes have_trait p = Inr probabilities'
          \<and> map fst probabilities' = map fst probabilities
          \<and> (\<forall>(person, d) \<in> set probabilities. \<exists>d'.
                getitem probabilities' person = Inr d'
              \<and> gene2 (p_gene d') = gene2 (p_gene d) + (if person \<in> two_genes then p else 0)
              \<and> gene1 (p_gene d') =
                  gene1 (p_gene d) + (if person \<notin> two_genes \<and> person \<in> one_gene then p else 0)
              \<and> gene0 (p_gene d') =
                  gene0 (p_gene d) + (if person \<notin> two_genes \<and> person \<notin> one_gene then p else 0)
              \<and> trait_True (p_trait d') =
                  trait_True (p_trait d) + (if person \<in> have_trait then p else 0)
              \<and> trait_False (p_trait d') =
                  trait_False (p_trait d) + (if person \<notin> have_trait then p else 0)
              \<and> gene_sum (p_gene d') = gene_sum (p_gene d) + p
              \<and> trait_sum (p_trait d') = trait_sum (p_trait d) + p)
          \<and> (balanced probabilities \<longrightarrow> balanced probabilities')"
    using u k cells b by (intro exI [of _ ?probs] conjI)
next
  fix n m have_trait'
  let ?names = "map fst people"
  let ?M1 = "accumulated_mass people (take n (powerset ?names))"
  let ?M2 = "?M1 + joint_mass people have_trait' (take m (gene_partitions ?names))"
  have d: "distinct (map fst (init_probabilities people))"
    using assms(2) by (simp only: init_probabilities_keys)
  from trait_loop_mass [OF assms(2) d has_mass_init, of "take n (powerset ?names)"]
  obtain probs1 where p1:
    "trait_loop people ?names (init_probabilities people) (take n (powerset ?names)) = Inr probs1"
    "map fst probs1 = map fst (init_probabilities people)" "has_mass (0 + ?M1) probs1"
    by blast
  have m1: "has_mass ?M1 probs1" using p1(3) by simp
  have d1: "distinct (map fst probs1)" using d by (simp only: p1(2))
  from gene_loop_mass [OF d1 m1, of people have_trait' "take m (gene_partitions ?names)"]
  obtain probs2 where p2:
    "gene_loop people probs1 have_trait' (take m (gene_partitions ?names)) = Inr probs2"
    "has_mass ?M2 probs2"
    by blast
  have b1: "balanced probs1" by (rule has_mass_balanced [OF m1])
  have b2: "balanced probs2" by (rule has_mass_balanced [OF p2(2)])
  show "\<exists>probabilities1 probabilities2.
             trait_loop people ?names (init_probabilities people)
               (take n (powerset ?names)) = Inr probabilities1
           \<and> gene_loop people probabilities1 have_trait'
               (take m (gene_partitions ?names)) = Inr probabilities2
           \<and> balanced probabilities1 \<and> balanced probabilities2
           \<and> has_mass ?M1 probabilities1 \<and> has_mass ?M2 probabilities2"
    using p1(1) p2 m1 b1 b2 by (intro exI [of _ probs1] exI [of _ probs2] conjI)
qed

theorem update_adds_to_one_cell_each_witness:
  "update
     [(''A'', \<lparr>p_gene = \<lparr>gene2 = 0.0035, gene1 = 0.0132, gene0 = 0.9504\<rparr>,
              p_trait = \<lparr>trait_True = 0, trait_False = 0.9671\<rparr>\<rparr>)]
     {} {''A''} {''A''} 0.0065
     = Inr [(''A'', \<lparr>p_gene = \<lparr>gene2 = 0.01, gene1 = 0.0132, gene0 = 0.9504\<rparr>,
                    p_trait = \<lparr>trait_True = 0.0065, trait_False = 0.9671\<rparr>\<rparr>)]
   \<and> trait_loop [(''A'', \<lparr>name = ''A'', mother = None, father = None, trait = None\<rparr>)]
       [''A'']
       (init_probabilities
          [(''A'', \<lparr>name = ''A'', mother = None, father = None, trait = None\<rparr>)])
       (take 1 (powerset [''A'']))
     = Inr [(''A'', \<lparr>p_gene = \<lparr>gene2 = 0.0035, gene1 = 0.0132, gene0 = 0.9504\<rparr>,
                    p_trait = \<lparr>trait_True = 0, trait_False = 0.9671\<rparr>\<rparr>)]
   \<and> gene_loop [(''A'', \<lparr>name = ''A'', mother = None, father = None, trait = None\<rparr>)]
       [(''A'', \<lparr>p_gene = \<lparr>gene2 = 0.0035, gene1 = 0.0132, gene0 = 0.9504\<rparr>,
                p_trait = \<lparr>trait_True = 0, trait_False = 0.9671\<rparr>\<rparr>)]
       {''A''} (take 2 (gene_partitions [''A'']))
     = Inr [(''A'', \<lparr>p_gene = \<lparr>gene2 = 0.01, gene1 = 0.0132, gene0 = 0.96\<rparr>,
                    p_trait = \<lparr>trait_True = 0.0161, trait_False = 0.9671\<rparr>\<rparr>)]
   \<and> accumulated_mass
       [(''A'', \<lparr>name = ''A'', mother = None, father = None, trait = None\<rparr>)]
       (take 1 (powerset [''A'']))
     + joint_mass [(''A'', \<lparr>name = ''A'', mother = None, father = None, trait = None\<rparr>)]
         {''A''} (take 2 (gene_partitions [''A''])) = 0.9832
   \<and> has_mass 0.9832
       [(''A'', \<lparr>p_gene = \<lparr>gene2 = 0.01, gene1 = 0.0132, gene0 = 0.96\<rparr>,
                p_trait = \<lparr>trait_True = 0.0161, trait_False = 0.9671\<rparr>\<rparr>)]"
  using update_adds_to_one_cell_each
    [of "[(''A'', \<lparr>p_gene = \<lparr>gene2 = 0.0035, gene1 = 0.0132, gene0 = 0.9504\<rparr>,
              p_trait = \<lparr>trait_True = 0, trait_False = 0.9671\<rparr>\<rparr>)]"
        "[(''A'', \<lparr>name = ''A'', mother = None, father = None, trait = None\<rparr>)]"
        "{}" "{''A''}" "{''A''}" "0.0065"]
  by (simp add: has_mass_def accumulated_mass_def joint_mass_def evidence_consistent_def
    init_probabilities_def powerset_def gene_partitions_def
    joint_probability_def person_prob_def gene_factor_def getitem_def PROBS_gene_def PROBS_trait_def
    gene_copies_of_def opt_in_def update_def update_person_def update_gene_def update_trait_def
    gene_sum_def trait_sum_def upt_rec numeral_2_eq_2)

end
